theory Spec2Isabelle
  imports Complex_Main "HOL-Library.Word"
begin

unbundle bit_operations_syntax

section \<open>Speaking practice: the live audio pipeline of SpeakingPractice.tsx\<close>

text \<open>
  The component keeps its state in React refs and reacts to callbacks: microphone frames
  (\<open>onaudioprocess\<close>), server messages (\<open>onmessage\<close>), the end of a playback source
  (\<open>onended\<close>) and the user's connect and disconnect. Each callback is embedded as a
  function from the state before it to the state after it. An exception a browser call
  throws is a value of \<open>js_error\<close>, returned as \<open>Inl\<close>.
\<close>

subsection \<open>Values of the platform\<close>

datatype js_error =
  RangeError | NotSupportedError | InvalidCharacterError | TypeError | NotAllowedError

text \<open>
  An element of a \<open>Float32Array\<close>: a finite number, an infinity or NaN. Finite values are
  modelled by reals. The products the encoder forms (a 24-bit significand times \<open>0x8000\<close>
  or \<open>0x7FFF\<close>) and the quotients the decoder forms (a 16-bit integer over \<open>32768\<close>) are
  exact in double precision, so no rounding is lost by that.
\<close>

datatype js_number = Finite real | PosInf | NegInf | NaN

text \<open>A string is its sequence of UTF-16 code units; a byte is an element of a \<open>Uint8Array\<close>.\<close>

type_synonym code_unit = "16 word"
type_synonym jsstring = "code_unit list"
type_synonym byte = "8 word"
type_synonym int16 = "16 word"

text \<open>\<open>Math.min(c, x)\<close> and \<open>Math.max(c, x)\<close> for a finite constant \<open>c\<close>; NaN is contagious.\<close>

fun math_min :: "real \<Rightarrow> js_number \<Rightarrow> js_number" where
  "math_min c (Finite r) = Finite (min c r)"
| "math_min c PosInf = Finite c"
| "math_min c NegInf = NegInf"
| "math_min c NaN = NaN"

fun math_max :: "real \<Rightarrow> js_number \<Rightarrow> js_number" where
  "math_max c (Finite r) = Finite (max c r)"
| "math_max c PosInf = PosInf"
| "math_max c NegInf = Finite c"
| "math_max c NaN = NaN"

text \<open>\<open>s < 0\<close>: false for NaN.\<close>

fun below_zero :: "js_number \<Rightarrow> bool" where
  "below_zero (Finite r) = (r < 0)"
| "below_zero NegInf = True"
| "below_zero PosInf = False"
| "below_zero NaN = False"

text \<open>\<open>s * k\<close> for a positive finite constant \<open>k\<close>.\<close>

fun times_const :: "js_number \<Rightarrow> real \<Rightarrow> js_number" where
  "times_const (Finite r) k = Finite (r * k)"
| "times_const PosInf k = PosInf"
| "times_const NegInf k = NegInf"
| "times_const NaN k = NaN"

text \<open>
  Storing a number into an \<open>Int16Array\<close> element (ToInt16): NaN and the infinities become 0,
  a finite number is truncated towards zero and reduced modulo \<open>2 ^ 16\<close>; the element is read
  back as a signed value with \<open>sint\<close>.
\<close>

definition js_trunc :: "real \<Rightarrow> int" where
  "js_trunc r = (if r < 0 then \<lceil>r\<rceil> else \<lfloor>r\<rfloor>)"

fun toInt16 :: "js_number \<Rightarrow> int16" where
  "toInt16 (Finite r) = word_of_int (js_trunc r)"
| "toInt16 PosInf = 0"
| "toInt16 NegInf = 0"
| "toInt16 NaN = 0"

subsection \<open>Audio utilities\<close>

text \<open>
  \<^verbatim>\<open>const s = Math.max(-1, Math.min(1, input[i]));
  output[i] = s < 0 ? s * 0x8000 : s * 0x7FFF;\<close>
\<close>

definition encode_sample :: "js_number \<Rightarrow> int16" where
  "encode_sample x =
     (let s = math_max (- 1) (math_min 1 x)
      in toInt16 (if below_zero s then times_const s 32768 else times_const s 32767))"

definition floatTo16BitPCM :: "js_number list \<Rightarrow> int16 list" where
  "floatTo16BitPCM input = map encode_sample input"

text \<open>
  \<open>base64ToUint8Array\<close>: \<open>atob\<close> is the browser's; it either throws or returns a binary
  string, whose code units the loop stores into a \<open>Uint8Array\<close>. It is a parameter here.
\<close>

definition base64ToUint8Array ::
  "(jsstring \<Rightarrow> js_error + jsstring) \<Rightarrow> jsstring \<Rightarrow> js_error + byte list" where
  "base64ToUint8Array atob base64 =
     (case atob base64 of
        Inl e \<Rightarrow> Inl e
      | Inr binaryString \<Rightarrow> Inr (map ucast binaryString))"

text \<open>
  \<open>arrayBufferToBase64\<close>: the bytes of the buffer become a binary string, which the
  browser's \<open>btoa\<close> (a parameter) encodes. An \<open>Int16Array\<close> lays each element out
  low byte first.
\<close>

definition int16_bytes :: "int16 \<Rightarrow> byte list" where
  "int16_bytes w = [ucast w, ucast (drop_bit 8 w)]"

definition buffer_of :: "int16 list \<Rightarrow> byte list" where
  "buffer_of pcm16 = concat (map int16_bytes pcm16)"

definition arrayBufferToBase64 :: "(jsstring \<Rightarrow> jsstring) \<Rightarrow> byte list \<Rightarrow> jsstring" where
  "arrayBufferToBase64 btoa buffer = btoa (map ucast buffer)"

text \<open>
  \<open>new Int16Array(audioBytes.buffer)\<close>: a view of the whole buffer. The constructor throws a
  RangeError when the byte length of the buffer is not a multiple of the element size 2.
\<close>

fun int16_elements :: "byte list \<Rightarrow> int16 list" where
  "int16_elements (lo # hi # rest) = (push_bit 8 (ucast hi) OR ucast lo) # int16_elements rest"
| "int16_elements rest = []"

definition newInt16Array :: "byte list \<Rightarrow> js_error + int16 list" where
  "newInt16Array buffer =
     (if length buffer mod 2 \<noteq> 0 then Inl RangeError else Inr (int16_elements buffer))"

text \<open>\<^verbatim>\<open>float32[i] = pcm16[i] / 32768.0\<close>\<close>

definition pcm16ToFloat32 :: "int16 list \<Rightarrow> real list" where
  "pcm16ToFloat32 pcm16 = map (\<lambda>w. real_of_int (sint w) / 32768) pcm16"

text \<open>The decoding of a received byte sequence: the view, then the loop.\<close>

definition decodePCM16ToFloat :: "byte list \<Rightarrow> js_error + real list" where
  "decodePCM16ToFloat audioBytes =
     (case newInt16Array audioBytes of
        Inl e \<Rightarrow> Inl e
      | Inr pcm16 \<Rightarrow> Inr (pcm16ToFloat32 pcm16))"

subsection \<open>Strings\<close>

text \<open>
  \<open>String.prototype.trim\<close> removes the white space and line terminator code units of
  ECMAScript from both ends: TAB, LF, VT, FF, CR, SP, NBSP, U+1680, U+2000 to U+200A,
  U+2028, U+2029, U+202F, U+205F, U+3000 and U+FEFF.
\<close>

definition is_js_space :: "code_unit \<Rightarrow> bool" where
  "is_js_space c \<longleftrightarrow>
     c \<in> {0x9, 0xA, 0xB, 0xC, 0xD, 0x20, 0xA0, 0x1680, 0x2028, 0x2029, 0x202F, 0x205F,
          0x3000, 0xFEFF} \<or> (0x2000 \<le> c \<and> c \<le> 0x200A)"

definition trim :: "jsstring \<Rightarrow> jsstring" where
  "trim s = rev (dropWhile is_js_space (rev (dropWhile is_js_space s)))"

text \<open>A string literal of the source, each character as the code unit of its number.\<close>

definition js :: "string \<Rightarrow> jsstring" where
  "js s = map of_char s"

subsection \<open>State of the component\<close>

datatype role = User | Model

record ChatMessage =
  role :: role
  msg_text :: jsstring

text \<open>
  An \<open>AudioBufferSourceNode\<close> that \<open>start\<close> has been called on: the identity of the
  object, the time it starts at and the duration of its buffer.
\<close>

record ScheduledSource =
  src_id :: nat
  startAt :: real
  duration :: real

datatype AudioContext = AudioContext nat
datatype MediaStream = MediaStream
datatype MediaStreamAudioSourceNode = MediaStreamAudioSourceNode
datatype ScriptProcessorNode = ScriptProcessorNode nat

text \<open>
  \<open>sessionRef\<close> holds the promise that \<open>createLiveSession\<close> returns. What the component
  chains on it with \<open>then\<close> is a continuation that either sends one media frame or closes
  the session. A continuation never runs inside the caller of \<open>then\<close>: it is a microtask,
  run when the task that made it ready has returned. A pending promise keeps its
  continuations in order and makes them ready when the handshake completes; a fulfilled
  one makes a new continuation ready at once; a rejected one never runs any.
\<close>

datatype continuation = SendRealtimeInput jsstring | Close

datatype session_promise = Pending "continuation list" | Fulfilled | Rejected

text \<open>
  The calls the component makes on objects of the browser and of the session, among them
  the creation of the two audio contexts: the output context of \<open>initAudio\<close> at 24 kHz and
  the input context of \<open>connect\<close> at 16 kHz, which no ref holds.
\<close>

datatype effect =
    AudioContextNew AudioContext
  | AudioContextResume AudioContext
  | GetUserMedia
  | CreateLiveSession
  | SessionSendRealtimeInput jsstring
  | SessionClose
  | TracksStop
  | ProcessorDisconnect
  | InputSourceDisconnect
  | AudioContextClose AudioContext
  | SourceStart nat real
  | SourceStop nat

text \<open>
  The refs and the React state the callbacks use. \<open>isMuted\<close> is the value the message
  handler sees. \<open>sourcesRef\<close> is the \<open>Set\<close> of live sources in insertion order.
  \<open>detached\<close> are the promises \<open>sessionRef\<close> no longer points to, \<open>microtasks\<close> the
  continuations that are ready and run when the current task returns, \<open>created\<close> counts
  the source nodes created so far, \<open>effects\<close> is the log of calls made.
\<close>

record component =
  messages :: "ChatMessage list"
  isConnected :: bool
  isProcessing :: bool
  isMuted :: bool
  sessionRef :: "session_promise option"
  audioContextRef :: "AudioContext option"
  nextStartTimeRef :: real
  sourcesRef :: "ScheduledSource list"
  processorRef :: "ScriptProcessorNode option"
  inputSourceRef :: "MediaStreamAudioSourceNode option"
  streamRef :: "MediaStream option"
  currentInputTransRef :: jsstring
  currentOutputTransRef :: jsstring
  detached :: "session_promise list"
  microtasks :: "continuation list"
  created :: nat
  effects :: "effect list"

definition initial :: component where
  "initial =
     \<lparr>messages = [], isConnected = False, isProcessing = False, isMuted = False,
      sessionRef = None, audioContextRef = None, nextStartTimeRef = 0, sourcesRef = [],
      processorRef = None, inputSourceRef = None, streamRef = None,
      currentInputTransRef = [], currentOutputTransRef = [],
      detached = [], microtasks = [], created = 0, effects = []\<rparr>"

text \<open>Sequencing of calls that may throw, and a method call on a ref that may be null.\<close>

definition and_then :: "js_error + 'a \<Rightarrow> ('a \<Rightarrow> js_error + 'b) \<Rightarrow> js_error + 'b" where
  "and_then r f = (case r of Inl e \<Rightarrow> Inl e | Inr x \<Rightarrow> f x)"

definition deref :: "'a option \<Rightarrow> js_error + 'a" where
  "deref r = (case r of None \<Rightarrow> Inl TypeError | Some x \<Rightarrow> Inr x)"

subsection \<open>The session promise and the microtask queue\<close>

fun run_continuation :: "continuation \<Rightarrow> effect" where
  "run_continuation (SendRealtimeInput data) = SessionSendRealtimeInput data"
| "run_continuation Close = SessionClose"

text \<open>\<open>then\<close>, settling, and rejection: the promise afterwards, and the continuations made ready.\<close>

fun promise_then :: "session_promise \<Rightarrow> continuation \<Rightarrow> session_promise \<times> continuation list" where
  "promise_then (Pending ks) k = (Pending (ks @ [k]), [])"
| "promise_then Fulfilled k = (Fulfilled, [k])"
| "promise_then Rejected k = (Rejected, [])"

fun fulfil :: "session_promise \<Rightarrow> session_promise \<times> continuation list" where
  "fulfil (Pending ks) = (Fulfilled, ks)"
| "fulfil Fulfilled = (Fulfilled, [])"
| "fulfil Rejected = (Rejected, [])"

fun reject :: "session_promise \<Rightarrow> session_promise" where
  "reject (Pending ks) = Rejected"
| "reject Fulfilled = Fulfilled"
| "reject Rejected = Rejected"

text \<open>When a task returns, the ready continuations run in order.\<close>

definition run_microtasks :: "component \<Rightarrow> component" where
  "run_microtasks st =
     st\<lparr>effects := effects st @ map run_continuation (microtasks st), microtasks := []\<rparr>"

subsection \<open>initAudio and connect\<close>

text \<open>
  \<open>initAudio\<close> creates the output context and, when the browser has it suspended, waits for
  \<open>ctx.resume()\<close>. Its part up to there is \<open>initAudio\<close>, with the state of the new context
  as an argument; its last two lines are \<open>initAudio_resumed\<close>:
  \<^verbatim>\<open>audioContextRef.current = ctx; nextStartTimeRef.current = 0;\<close>
\<close>

definition initAudio_resumed :: "component \<Rightarrow> component" where
  "initAudio_resumed st =
     st\<lparr>audioContextRef := Some (AudioContext 24000), nextStartTimeRef := 0\<rparr>"

definition initAudio :: "component \<Rightarrow> bool \<Rightarrow> component" where
  "initAudio st suspended =
     (let st1 = st\<lparr>effects := effects st @ [AudioContextNew (AudioContext 24000)]\<rparr>
      in if suspended
         then st1\<lparr>effects := effects st1 @ [AudioContextResume (AudioContext 24000)]\<rparr>
         else initAudio_resumed st1)"

text \<open>
  \<open>connect\<close> is an async function and other callbacks run while it waits. It is embedded
  as the parts between its waits. \<open>connect\<close> runs to the first wait: for \<open>resume\<close> when
  the context is suspended, else for \<open>getUserMedia\<close>. \<open>connect_resumed\<close> runs from the end
  of \<open>resume\<close> to the wait for \<open>getUserMedia\<close>. \<open>connect_userMedia\<close> runs from the answer
  of \<open>getUserMedia\<close> to the end: when it throws, the \<open>catch\<close> block; otherwise the stream,
  the input context, the two nodes and the promise of the new session, and a promise that
  \<open>sessionRef\<close> held is detached.
\<close>

definition connect :: "component \<Rightarrow> bool \<Rightarrow> component" where
  "connect st suspended =
     (let st1 = initAudio (st\<lparr>isProcessing := True, messages := []\<rparr>) suspended
      in if suspended then st1 else st1\<lparr>effects := effects st1 @ [GetUserMedia]\<rparr>)"

definition connect_resumed :: "component \<Rightarrow> component" where
  "connect_resumed st =
     (let st1 = initAudio_resumed st in st1\<lparr>effects := effects st1 @ [GetUserMedia]\<rparr>)"

definition connect_userMedia :: "component \<Rightarrow> js_error + MediaStream \<Rightarrow> component" where
  "connect_userMedia st userMedia =
     (case userMedia of
        Inl err \<Rightarrow> st\<lparr>isProcessing := False\<rparr>
      | Inr stream \<Rightarrow>
          st\<lparr>streamRef := Some stream,
             inputSourceRef := Some MediaStreamAudioSourceNode,
             processorRef := Some (ScriptProcessorNode 4096),
             sessionRef := Some (Pending []),
             detached := detached st @ (case sessionRef st of None \<Rightarrow> [] | Some p \<Rightarrow> [p]),
             effects := effects st @ [AudioContextNew (AudioContext 16000), CreateLiveSession]\<rparr>)"

text \<open>The callbacks given to \<open>createLiveSession\<close>, and the handshake completing or failing.\<close>

definition onopen :: "component \<Rightarrow> component" where
  "onopen st = st\<lparr>isConnected := True, isProcessing := False\<rparr>"

definition onclose :: "component \<Rightarrow> component" where
  "onclose st = st\<lparr>isConnected := False\<rparr>"

definition onerror :: "component \<Rightarrow> component" where
  "onerror st = st\<lparr>isConnected := False, isProcessing := False\<rparr>"

definition session_opened :: "component \<Rightarrow> component" where
  "session_opened st =
     (case sessionRef st of
        None \<Rightarrow> st
      | Some p \<Rightarrow>
          (let (p', ready) = fulfil p
           in (onopen st)\<lparr>sessionRef := Some p', microtasks := microtasks st @ ready\<rparr>))"

definition session_failed :: "component \<Rightarrow> component" where
  "session_failed st =
     (case sessionRef st of
        None \<Rightarrow> st
      | Some p \<Rightarrow> (onerror st)\<lparr>sessionRef := Some (reject p)\<rparr>)"

definition detached_opened :: "component \<Rightarrow> nat \<Rightarrow> component" where
  "detached_opened st i =
     (if i < length (detached st)
      then (let (p', ready) = fulfil (detached st ! i)
            in (onopen st)\<lparr>detached := (detached st)[i := p'],
                            microtasks := microtasks st @ ready\<rparr>)
      else st)"

subsection \<open>Capture: onaudioprocess\<close>

text \<open>
  \<^verbatim>\<open>if (!sessionRef.current) return;
  const pcm16 = floatTo16BitPCM(inputData);
  const base64Data = arrayBufferToBase64(pcm16.buffer);
  sessionRef.current.then(session => { session.sendRealtimeInput({...}) });\<close>
  The level meter the same callback updates is display state and is left out.
\<close>

definition onaudioprocess :: "(jsstring \<Rightarrow> jsstring) \<Rightarrow> component \<Rightarrow> js_number list \<Rightarrow> component" where
  "onaudioprocess btoa st inputData =
     (case sessionRef st of
        None \<Rightarrow> st
      | Some p \<Rightarrow>
          (let pcm16 = floatTo16BitPCM inputData;
               base64Data = arrayBufferToBase64 btoa (buffer_of pcm16);
               (p', ready) = promise_then p (SendRealtimeInput base64Data)
           in st\<lparr>sessionRef := Some p', microtasks := microtasks st @ ready\<rparr>))"

subsection \<open>Playback scheduling\<close>

text \<open>
  The times of the scheduler are doubles. A double is modelled by the real it denotes, and
  the parameter \<open>fl\<close> is the rounding of an exact result to a double: the code's
  \<open>startTime + buffer.duration\<close> is \<open>fl (startTime + bufferDuration)\<close>, and the duration
  of a buffer, its length over its sample rate, is \<open>fl (n / 24000)\<close>. \<open>Math.max\<close> is
  exact. Overflow to infinity is left out.

  Lines 167 to 183 of the handler, for a decoded chunk of \<open>n\<close> samples when
  \<open>ctx.currentTime\<close> reads \<open>now\<close>. The Web Audio API requires the length given to
  \<open>createBuffer\<close> to be at least one frame, so \<open>createBuffer(1, 0, 24000)\<close> throws a
  NotSupportedError; \<open>start\<close> throws a RangeError for a negative time. Both come before
  the first write to a ref, and nothing in the handler catches them.
  \<^verbatim>\<open>const startTime = Math.max(nextStartTimeRef.current, currentTime);
  source.start(startTime);
  nextStartTimeRef.current = startTime + buffer.duration;
  sourcesRef.current.add(source);\<close>
\<close>

definition schedulePlayback ::
  "(real \<Rightarrow> real) \<Rightarrow> component \<Rightarrow> nat \<Rightarrow> real \<Rightarrow> js_error + component" where
  "schedulePlayback fl st n now =
     (if n = 0 then Inl NotSupportedError
      else
        (let bufferDuration = fl (real n / 24000);
             startTime = max (nextStartTimeRef st) now
         in if startTime < 0 then Inl RangeError
            else Inr (st\<lparr>nextStartTimeRef := fl (startTime + bufferDuration),
                         sourcesRef := sourcesRef st @
                           [\<lparr>src_id = created st, startAt = startTime, duration = bufferDuration\<rparr>],
                         created := Suc (created st),
                         effects := effects st @ [SourceStart (created st) startTime]\<rparr>)))"

text \<open>\<^verbatim>\<open>source.onended = () => sourcesRef.current.delete(source);\<close>\<close>

definition onended :: "component \<Rightarrow> nat \<Rightarrow> component" where
  "onended st i = st\<lparr>sourcesRef := filter (\<lambda>s. src_id s \<noteq> i) (sourcesRef st)\<rparr>"

text \<open>
  The interval of a source: its start time and the double sum of start time and duration.
  A run of scheduling calls, each with the length of its chunk and the clock at the call,
  returns the interval of every source a call added to the live set, in order of the
  calls, and the last state. A call that throws has written nothing.
\<close>

definition interval_of :: "(real \<Rightarrow> real) \<Rightarrow> ScheduledSource \<Rightarrow> real \<times> real" where
  "interval_of fl s = (startAt s, fl (startAt s + duration s))"

fun enqueue_all ::
  "(real \<Rightarrow> real) \<Rightarrow> component \<Rightarrow> (nat \<times> real) list \<Rightarrow> (real \<times> real) list \<times> component" where
  "enqueue_all fl st [] = ([], st)"
| "enqueue_all fl st ((n, now) # rest) =
     (case schedulePlayback fl st n now of
        Inl e \<Rightarrow> enqueue_all fl st rest
      | Inr st' \<Rightarrow>
          (let (ivs, final) = enqueue_all fl st' rest
           in (interval_of fl (last (sourcesRef st')) # ivs, final)))"

subsection \<open>The message handler\<close>

record LiveServerMessage =
  audioData :: "jsstring option"
  inputTranscription :: "jsstring option"
  outputTranscription :: "jsstring option"
  turnComplete :: bool

text \<open>
  Part A, audio output. An absent payload and the empty string are falsy.
  \<^verbatim>\<open>if (audioData && !isMuted && audioContextRef.current) { ... }\<close>
\<close>

definition handleAudio ::
  "(jsstring \<Rightarrow> js_error + jsstring) \<Rightarrow> (real \<Rightarrow> real) \<Rightarrow> component \<Rightarrow> real \<Rightarrow>
     LiveServerMessage \<Rightarrow> js_error + component" where
  "handleAudio atob fl st now message =
     (case audioData message of
        None \<Rightarrow> Inr st
      | Some base64 \<Rightarrow>
          if base64 \<noteq> [] \<and> \<not> isMuted st \<and> audioContextRef st \<noteq> None
          then and_then (base64ToUint8Array atob base64) (\<lambda>audioBytes.
               and_then (newInt16Array audioBytes) (\<lambda>pcm16.
                 (let float32 = pcm16ToFloat32 pcm16
                  in schedulePlayback fl st (length float32) now)))
          else Inr st)"

text \<open>
  Part B, transcriptions. The deltas, where again the empty string is falsy:
  \<^verbatim>\<open>if (inputTrans) { currentInputTransRef.current += inputTrans; }
  if (outputTrans) { currentOutputTransRef.current += outputTrans; }\<close>
\<close>

definition appendDeltas :: "component \<Rightarrow> LiveServerMessage \<Rightarrow> component" where
  "appendDeltas st message =
     (let st1 = (case inputTranscription message of
                   None \<Rightarrow> st
                 | Some inputTrans \<Rightarrow>
                     if inputTrans \<noteq> []
                     then st\<lparr>currentInputTransRef := currentInputTransRef st @ inputTrans\<rparr>
                     else st)
      in case outputTranscription message of
           None \<Rightarrow> st1
         | Some outputTrans \<Rightarrow>
             if outputTrans \<noteq> []
             then st1\<lparr>currentOutputTransRef := currentOutputTransRef st1 @ outputTrans\<rparr>
             else st1)"

text \<open>
  The commit on \<open>turnComplete\<close>; the pair is \<open>newMessages\<close> and the state.
  \<^verbatim>\<open>if (currentInputTransRef.current.trim()) {
      newMessages.push({ role: 'user', text: currentInputTransRef.current.trim() });
      currentInputTransRef.current = '';
  }\<close>
  and the same for the output buffer with the role \<open>model\<close>, then
  \<^verbatim>\<open>if (newMessages.length > 0) { setMessages(prev => [...prev, ...newMessages]); }\<close>
\<close>

definition commitInput :: "ChatMessage list \<times> component \<Rightarrow> ChatMessage list \<times> component" where
  "commitInput acc =
     (case acc of (newMessages, st) \<Rightarrow>
        if trim (currentInputTransRef st) \<noteq> []
        then (newMessages @ [\<lparr>role = User, msg_text = trim (currentInputTransRef st)\<rparr>],
              st\<lparr>currentInputTransRef := []\<rparr>)
        else (newMessages, st))"

definition commitOutput :: "ChatMessage list \<times> component \<Rightarrow> ChatMessage list \<times> component" where
  "commitOutput acc =
     (case acc of (newMessages, st) \<Rightarrow>
        if trim (currentOutputTransRef st) \<noteq> []
        then (newMessages @ [\<lparr>role = Model, msg_text = trim (currentOutputTransRef st)\<rparr>],
              st\<lparr>currentOutputTransRef := []\<rparr>)
        else (newMessages, st))"

definition commitTranscripts :: "component \<Rightarrow> component" where
  "commitTranscripts st =
     (case commitOutput (commitInput ([], st)) of (newMessages, st') \<Rightarrow>
        if length newMessages > 0
        then st'\<lparr>messages := messages st' @ newMessages\<rparr>
        else st')"

definition handleTranscripts :: "component \<Rightarrow> LiveServerMessage \<Rightarrow> component" where
  "handleTranscripts st message =
     (let st' = appendDeltas st message
      in if turnComplete message then commitTranscripts st' else st')"

text \<open>The handler: part B runs only when part A has not thrown.\<close>

definition onmessage ::
  "(jsstring \<Rightarrow> js_error + jsstring) \<Rightarrow> (real \<Rightarrow> real) \<Rightarrow> component \<Rightarrow> real \<Rightarrow>
     LiveServerMessage \<Rightarrow> js_error + component" where
  "onmessage atob fl st now message =
     and_then (handleAudio atob fl st now message) (\<lambda>st'. Inr (handleTranscripts st' message))"

subsection \<open>disconnect\<close>

text \<open>
  Each block of \<open>disconnect\<close> tests its ref and then calls a method on it; the call on a
  null ref would throw a TypeError.
  \<^verbatim>\<open>if (sessionRef.current) {
      sessionRef.current.then(s => s.close());
      sessionRef.current = null;
  }\<close>
\<close>

definition releaseSession :: "component \<Rightarrow> js_error + component" where
  "releaseSession st =
     (if sessionRef st \<noteq> None
      then and_then (deref (sessionRef st)) (\<lambda>p.
             (let (p', ready) = promise_then p Close
              in Inr (st\<lparr>sessionRef := None, detached := detached st @ [p'],
                         microtasks := microtasks st @ ready\<rparr>)))
      else Inr st)"

definition releaseStream :: "component \<Rightarrow> js_error + component" where
  "releaseStream st =
     (if streamRef st \<noteq> None
      then and_then (deref (streamRef st)) (\<lambda>stream.
             Inr (st\<lparr>streamRef := None, effects := effects st @ [TracksStop]\<rparr>))
      else Inr st)"

definition releaseProcessor :: "component \<Rightarrow> js_error + component" where
  "releaseProcessor st =
     (if processorRef st \<noteq> None
      then and_then (deref (processorRef st)) (\<lambda>processor.
             Inr (st\<lparr>processorRef := None, effects := effects st @ [ProcessorDisconnect]\<rparr>))
      else Inr st)"

definition releaseInputSource :: "component \<Rightarrow> js_error + component" where
  "releaseInputSource st =
     (if inputSourceRef st \<noteq> None
      then and_then (deref (inputSourceRef st)) (\<lambda>source.
             Inr (st\<lparr>inputSourceRef := None, effects := effects st @ [InputSourceDisconnect]\<rparr>))
      else Inr st)"

definition releaseAudioContext :: "component \<Rightarrow> js_error + component" where
  "releaseAudioContext st =
     (if audioContextRef st \<noteq> None
      then and_then (deref (audioContextRef st)) (\<lambda>ctx.
             Inr (st\<lparr>audioContextRef := None, effects := effects st @ [AudioContextClose ctx]\<rparr>))
      else Inr st)"

text \<open>
  \<^verbatim>\<open>sourcesRef.current.forEach(s => s.stop());
  sourcesRef.current.clear();
  setIsConnected(false);\<close>
  Every source in the set has been started, so \<open>stop\<close> does not throw.
\<close>

definition stopSources :: "component \<Rightarrow> component" where
  "stopSources st =
     st\<lparr>effects := effects st @ map (\<lambda>s. SourceStop (src_id s)) (sourcesRef st),
        sourcesRef := [],
        isConnected := False\<rparr>"

definition disconnect :: "component \<Rightarrow> js_error + component" where
  "disconnect st =
     and_then (releaseSession st) (\<lambda>st1.
     and_then (releaseStream st1) (\<lambda>st2.
     and_then (releaseProcessor st2) (\<lambda>st3.
     and_then (releaseInputSource st3) (\<lambda>st4.
     and_then (releaseAudioContext st4) (\<lambda>st5.
       Inr (stopSources st5))))))"

subsection \<open>Runs of the component\<close>

datatype event =
    Connect bool
  | ConnectResumed
  | ConnectUserMedia "js_error + MediaStream"
  | Disconnect
  | AudioProcess "js_number list"
  | SessionOpened
  | SessionFailed
  | SessionClosed
  | DetachedOpened nat
  | Message real LiveServerMessage
  | Ended nat

text \<open>
  One task: a callback, then the microtasks it left. A handler that throws leaves the state
  as it was at the throw. The browser's \<open>atob\<close> and \<open>btoa\<close> and the rounding \<open>fl\<close> are
  parameters of a run. Where a closed instance is needed below and nothing else is said,
  \<open>atob\<close> returns its argument (\<open>Inr\<close>), \<open>btoa\<close> is the identity, so that a payload
  shows its bytes, and \<open>fl\<close> is the identity: the sums of those instances, where there
  are any, are exact in double precision.
\<close>

fun handle ::
  "(jsstring \<Rightarrow> js_error + jsstring) \<Rightarrow> (jsstring \<Rightarrow> jsstring) \<Rightarrow> (real \<Rightarrow> real) \<Rightarrow>
     component \<Rightarrow> event \<Rightarrow> component" where
  "handle atob btoa fl st (Connect suspended) = connect st suspended"
| "handle atob btoa fl st ConnectResumed = connect_resumed st"
| "handle atob btoa fl st (ConnectUserMedia userMedia) = connect_userMedia st userMedia"
| "handle atob btoa fl st Disconnect = (case disconnect st of Inl e \<Rightarrow> st | Inr st' \<Rightarrow> st')"
| "handle atob btoa fl st (AudioProcess inputData) = onaudioprocess btoa st inputData"
| "handle atob btoa fl st SessionOpened = session_opened st"
| "handle atob btoa fl st SessionFailed = session_failed st"
| "handle atob btoa fl st SessionClosed = onclose st"
| "handle atob btoa fl st (DetachedOpened i) = detached_opened st i"
| "handle atob btoa fl st (Message now message) =
     (case onmessage atob fl st now message of Inl e \<Rightarrow> st | Inr st' \<Rightarrow> st')"
| "handle atob btoa fl st (Ended i) = onended st i"

definition step ::
  "(jsstring \<Rightarrow> js_error + jsstring) \<Rightarrow> (jsstring \<Rightarrow> jsstring) \<Rightarrow> (real \<Rightarrow> real) \<Rightarrow>
     component \<Rightarrow> event \<Rightarrow> component" where
  "step atob btoa fl st ev = run_microtasks (handle atob btoa fl st ev)"

definition run ::
  "(jsstring \<Rightarrow> js_error + jsstring) \<Rightarrow> (jsstring \<Rightarrow> jsstring) \<Rightarrow> (real \<Rightarrow> real) \<Rightarrow>
     component \<Rightarrow> event list \<Rightarrow> component" where
  "run atob btoa fl st evs = foldl (step atob btoa fl) st evs"

text \<open>Messages that carry one thing only: a transcript delta or the turn-complete marker.\<close>

definition turnCompleteMarker :: LiveServerMessage where
  "turnCompleteMarker =
     \<lparr>audioData = None, inputTranscription = None, outputTranscription = None, turnComplete = True\<rparr>"

definition inputDelta :: "jsstring \<Rightarrow> LiveServerMessage" where
  "inputDelta t =
     \<lparr>audioData = None, inputTranscription = Some t, outputTranscription = None, turnComplete = False\<rparr>"

definition outputDelta :: "jsstring \<Rightarrow> LiveServerMessage" where
  "outputDelta t =
     \<lparr>audioData = None, inputTranscription = None, outputTranscription = Some t, turnComplete = False\<rparr>"

section \<open>The PCM codec\<close>

lemma sint_int16_of_int:
  "- 32768 \<le> k \<Longrightarrow> k < 32768 \<Longrightarrow> sint (word_of_int k :: int16) = k"
  by (simp add: sint_sbintrunc' signed_take_bit_int_eq_self)

lemma encode_sample_Finite:
  "encode_sample (Finite r) =
     word_of_int (if r < - 1 then - 32768 else if r < 0 then \<lceil>r * 32768\<rceil> else if r \<le> 1 then \<lfloor>r * 32767\<rfloor> else 32767)"
  by (auto simp add: encode_sample_def js_trunc_def min_def max_def)

lemma encode_sample_value:
  "sint (encode_sample (Finite r)) =
     (if r < - 1 then - 32768 else if r < 0 then \<lceil>r * 32768\<rceil> else if r \<le> 1 then \<lfloor>r * 32767\<rfloor> else 32767)"
proof -
  have neg: "- 32768 \<le> \<lceil>r * 32768\<rceil> \<and> \<lceil>r * 32768\<rceil> < 32768" if "- 1 \<le> r" "r < 0"
  proof -
    have "real_of_int (- 32768) \<le> r * 32768" using that by simp
    then have "- 32768 \<le> \<lceil>r * 32768\<rceil>" by (simp add: le_ceiling_iff)
    moreover have "r * 32768 \<le> 0" using that by simp
    then have "\<lceil>r * 32768\<rceil> \<le> 0" by (simp add: ceiling_le_iff)
    ultimately show ?thesis by simp
  qed
  have pos: "- 32768 \<le> \<lfloor>r * 32767\<rfloor> \<and> \<lfloor>r * 32767\<rfloor> < 32768" if "0 \<le> r" "r \<le> 1"
  proof -
    have "0 \<le> r * 32767" using that by simp
    then have "0 \<le> \<lfloor>r * 32767\<rfloor>" by simp
    moreover have "r * 32767 < 32768" using that by simp
    then have "\<lfloor>r * 32767\<rfloor> < 32768" by (simp add: floor_less_iff)
    ultimately show ?thesis by simp
  qed
  show ?thesis
    using neg pos by (simp add: encode_sample_Finite sint_int16_of_int)
qed

lemma floatTo16BitPCM_nth:
  "i < length input \<Longrightarrow> floatTo16BitPCM input ! i = encode_sample (input ! i)"
  by (simp add: floatTo16BitPCM_def)

lemma encode_sample_PosInf: "sint (encode_sample PosInf) = 32767"
  by (simp add: encode_sample_def js_trunc_def)

lemma encode_sample_NegInf: "sint (encode_sample NegInf) = - 32768"
  by (simp add: encode_sample_def js_trunc_def)

text \<open>
  Claim C8. The encoder maps the input \<open>[2.0, -2.0]\<close> to \<open>[32767, -32768]\<close>. In any input
  array, a sample above 1 (also positive infinity) is stored as 32767 and a sample below -1
  (also negative infinity) as -32768; for a sample within the range the stored element is
  the truncated product itself, so the 16-bit store never wraps.
\<close>

theorem floatTo16BitPCM_clamps:
  assumes "i < length input"
  shows "map sint (floatTo16BitPCM [Finite 2, Finite (- 2)]) = [32767, - 32768] \<and>
         (\<forall>r. input ! i = Finite r \<and> 1 < r \<longrightarrow> sint (floatTo16BitPCM input ! i) = 32767) \<and>
         (\<forall>r. input ! i = Finite r \<and> r < - 1 \<longrightarrow> sint (floatTo16BitPCM input ! i) = - 32768) \<and>
         (input ! i = PosInf \<longrightarrow> sint (floatTo16BitPCM input ! i) = 32767) \<and>
         (input ! i = NegInf \<longrightarrow> sint (floatTo16BitPCM input ! i) = - 32768) \<and>
         (\<forall>r. input ! i = Finite r \<and> - 1 \<le> r \<and> r \<le> 1 \<longrightarrow>
            sint (floatTo16BitPCM input ! i) = js_trunc (if r < 0 then r * 32768 else r * 32767))"
proof -
  have "map sint (floatTo16BitPCM [Finite 2, Finite (- 2)]) = [32767, - 32768]"
    by (simp add: floatTo16BitPCM_def encode_sample_value)
  moreover have "sint (floatTo16BitPCM input ! i) = 32767" if "input ! i = Finite r" "1 < r" for r
    using assms that by (simp add: floatTo16BitPCM_nth encode_sample_value)
  moreover have "sint (floatTo16BitPCM input ! i) = - 32768" if "input ! i = Finite r" "r < - 1" for r
    using assms that by (simp add: floatTo16BitPCM_nth encode_sample_value)
  moreover have "sint (floatTo16BitPCM input ! i) = 32767" if "input ! i = PosInf"
    using assms that by (simp add: floatTo16BitPCM_nth encode_sample_PosInf)
  moreover have "sint (floatTo16BitPCM input ! i) = - 32768" if "input ! i = NegInf"
    using assms that by (simp add: floatTo16BitPCM_nth encode_sample_NegInf)
  moreover have "sint (floatTo16BitPCM input ! i) = js_trunc (if r < 0 then r * 32768 else r * 32767)"
    if "input ! i = Finite r" "- 1 \<le> r" "r \<le> 1" for r
    using assms that by (simp add: floatTo16BitPCM_nth encode_sample_value js_trunc_def)
  ultimately show ?thesis by blast
qed

text \<open>The sample 3 at index 0 of a two-element array.\<close>

theorem floatTo16BitPCM_clamps_witness:
  "(0::nat) < length [Finite 3, Finite (- 5)] \<and> [Finite 3, Finite (- 5)] ! 0 = Finite 3 \<and> (1::real) < 3 \<and>
   sint (floatTo16BitPCM [Finite 3, Finite (- 5)] ! 0) = 32767"
  using floatTo16BitPCM_clamps [of 0 "[Finite 3, Finite (- 5)]"] by simp

lemma decode_error_arith:
  fixes x :: real and k :: int
  shows "real_of_int k \<le> x * 32767 \<Longrightarrow> x * 32767 < real_of_int k + 1 \<Longrightarrow> 0 \<le> x \<Longrightarrow> x \<le> 1
           \<Longrightarrow> \<bar>real_of_int k / 32768 - x\<bar> < 2 / 32768"
    and "x * 32768 \<le> real_of_int k \<Longrightarrow> real_of_int k < x * 32768 + 1
           \<Longrightarrow> \<bar>real_of_int k / 32768 - x\<bar> < 1 / 32768"
  by linarith+

lemma decode_encode_error:
  assumes "- 1 \<le> x" "x \<le> 1"
  shows "\<bar>real_of_int (sint (encode_sample (Finite x))) / 32768 - x\<bar> < 2 / 32768"
    and "x \<le> 0 \<Longrightarrow> \<bar>real_of_int (sint (encode_sample (Finite x))) / 32768 - x\<bar> < 1 / 32768"
proof -
  have neg: "\<bar>real_of_int (sint (encode_sample (Finite x))) / 32768 - x\<bar> < 1 / 32768" if "x < 0"
  proof -
    have v: "sint (encode_sample (Finite x)) = \<lceil>x * 32768\<rceil>"
      using that assms by (simp add: encode_sample_value)
    have "real_of_int \<lceil>x * 32768\<rceil> < x * 32768 + 1" by linarith
    moreover have "x * 32768 \<le> real_of_int \<lceil>x * 32768\<rceil>" by linarith
    ultimately show ?thesis unfolding v by (rule decode_error_arith(2) [rotated])
  qed
  have pos: "\<bar>real_of_int (sint (encode_sample (Finite x))) / 32768 - x\<bar> < 2 / 32768" if "0 \<le> x"
  proof -
    have v: "sint (encode_sample (Finite x)) = \<lfloor>x * 32767\<rfloor>"
      using that assms by (simp add: encode_sample_value)
    have "real_of_int \<lfloor>x * 32767\<rfloor> \<le> x * 32767" by linarith
    moreover have "x * 32767 < real_of_int \<lfloor>x * 32767\<rfloor> + 1" by linarith
    ultimately show ?thesis unfolding v using that assms(2) by (rule decode_error_arith(1))
  qed
  show "\<bar>real_of_int (sint (encode_sample (Finite x))) / 32768 - x\<bar> < 2 / 32768"
  proof (cases "x < 0")
    case True
    from neg [OF True] show ?thesis by linarith
  next
    case False
    then show ?thesis using pos by simp
  qed
  show "\<bar>real_of_int (sint (encode_sample (Finite x))) / 32768 - x\<bar> < 1 / 32768" if "x \<le> 0"
  proof (cases "x < 0")
    case True
    then show ?thesis by (rule neg)
  next
    case False
    then have "x = 0" using that by simp
    then show ?thesis by (simp add: encode_sample_value)
  qed
qed

text \<open>
  Claim C3, as amended. For an array of samples in \<open>[-1, 1]\<close>, decoding its encoding gives an
  array of the same length, and each element differs from the sample by less than two
  quantization steps, \<open>2/32768\<close>; for a sample that is not positive, by less than one step.
  Non-negative samples are scaled by 32767, truncated and then divided by 32768, which is
  why one step is not enough for them.
\<close>

theorem pcm16_round_trip:
  assumes "\<forall>x \<in> set xs. - 1 \<le> x \<and> x \<le> 1"
  shows "length (pcm16ToFloat32 (floatTo16BitPCM (map Finite xs))) = length xs \<and>
         (\<forall>i < length xs.
            \<bar>pcm16ToFloat32 (floatTo16BitPCM (map Finite xs)) ! i - xs ! i\<bar> < 2 / 32768 \<and>
            (xs ! i \<le> 0 \<longrightarrow>
               \<bar>pcm16ToFloat32 (floatTo16BitPCM (map Finite xs)) ! i - xs ! i\<bar> < 1 / 32768))"
proof -
  have len: "length (pcm16ToFloat32 (floatTo16BitPCM (map Finite xs))) = length xs"
    by (simp add: pcm16ToFloat32_def floatTo16BitPCM_def)
  have nth: "pcm16ToFloat32 (floatTo16BitPCM (map Finite xs)) ! i
               = real_of_int (sint (encode_sample (Finite (xs ! i)))) / 32768"
    if "i < length xs" for i
    using that by (simp add: pcm16ToFloat32_def floatTo16BitPCM_def)
  have "\<bar>pcm16ToFloat32 (floatTo16BitPCM (map Finite xs)) ! i - xs ! i\<bar> < 2 / 32768 \<and>
        (xs ! i \<le> 0 \<longrightarrow>
           \<bar>pcm16ToFloat32 (floatTo16BitPCM (map Finite xs)) ! i - xs ! i\<bar> < 1 / 32768)"
    if "i < length xs" for i
  proof -
    have "- 1 \<le> xs ! i" "xs ! i \<le> 1" using assms that by simp_all
    then show ?thesis
      using decode_encode_error [of "xs ! i"] by (simp only: nth [OF that]) blast
  qed
  with len show ?thesis by blast
qed

text \<open>The array \<open>[0.5, -0.25]\<close>.\<close>

theorem pcm16_round_trip_witness:
  "- 1 \<le> (1 / 2 :: real) \<and> (1 / 2 :: real) \<le> 1 \<and> - 1 \<le> (- 1 / 4 :: real) \<and> (- 1 / 4 :: real) \<le> 1 \<and>
   length (pcm16ToFloat32 (floatTo16BitPCM (map Finite [1 / 2, - 1 / 4]))) = 2 \<and>
   \<bar>pcm16ToFloat32 (floatTo16BitPCM (map Finite [1 / 2, - 1 / 4])) ! 0 - 1 / 2\<bar> < 2 / 32768"
proof -
  have h: "\<forall>x \<in> set [1 / 2, - 1 / 4 :: real]. - 1 \<le> x \<and> x \<le> 1" by simp
  from pcm16_round_trip [OF h] show ?thesis using h by fastforce
qed

text \<open>
  The sample \<open>65535/65536\<close>, a value a \<open>Float32Array\<close> holds exactly, is encoded as 32766
  and decoded as \<open>32766/32768\<close>: the difference is \<open>3/65536\<close>, more than one step.
\<close>

theorem pcm16_round_trip_counterexample:
  "\<not> \<bar>pcm16ToFloat32 (floatTo16BitPCM [Finite (65535 / 65536)]) ! 0 - 65535 / 65536\<bar> \<le> 1 / 32768"
proof -
  have v: "sint (encode_sample (Finite (65535 / 65536))) = 32766"
    by (simp add: encode_sample_value)
  have "pcm16ToFloat32 (floatTo16BitPCM [Finite (65535 / 65536)]) ! 0
          = real_of_int (sint (encode_sample (Finite (65535 / 65536)))) / 32768"
    by (simp add: pcm16ToFloat32_def floatTo16BitPCM_def)
  then have "pcm16ToFloat32 (floatTo16BitPCM [Finite (65535 / 65536)]) ! 0 = 32766 / 32768"
    by (simp only: v)
  then show ?thesis by simp
qed

lemma length_int16_elements: "length (int16_elements bs) = length bs div 2"
  by (induction bs rule: int16_elements.induct) simp_all

text \<open>
  Claim C4, as amended. Decoding succeeds on every byte sequence of even length and returns
  half as many samples as there are bytes. On every byte sequence of odd length the
  \<open>Int16Array\<close> view throws a RangeError: nothing is truncated and no sample is returned.
\<close>

theorem decodePCM16ToFloat_total_on_even:
  "(even (length audioBytes) \<longrightarrow>
      (\<exists>float32. decodePCM16ToFloat audioBytes = Inr float32 \<and>
                 length float32 = length audioBytes div 2)) \<and>
   (odd (length audioBytes) \<longrightarrow> decodePCM16ToFloat audioBytes = Inl RangeError)"
  by (auto simp add: decodePCM16ToFloat_def newInt16Array_def pcm16ToFloat32_def
      length_int16_elements even_iff_mod_2_eq_zero odd_iff_mod_2_eq_one)

text \<open>Four bytes decode to the two samples \<open>-1\<close> and \<open>32767/32768\<close>; one byte is rejected.\<close>

theorem decodePCM16ToFloat_total_on_even_witness:
  "even (length [0, 128, 255, 127 :: byte]) \<and>
   decodePCM16ToFloat [0, 128, 255, 127] = Inr [- 1, 32767 / 32768] \<and>
   odd (length [7 :: byte]) \<and> decodePCM16ToFloat [7] = Inl RangeError"
  using decodePCM16ToFloat_total_on_even [of "[0, 128, 255, 127]"]
    decodePCM16ToFloat_total_on_even [of "[7]"]
  by (simp add: decodePCM16ToFloat_def newInt16Array_def pcm16ToFloat32_def)

text \<open>Three bytes: the decoding does not return one sample, it throws.\<close>

theorem decodePCM16ToFloat_odd_counterexample:
  "odd (length [0, 64, 1 :: byte]) \<and> decodePCM16ToFloat [0, 64, 1] = Inl RangeError"
  by (simp add: decodePCM16ToFloat_def newInt16Array_def)
section \<open>Teardown\<close>

lemma releaseSession_eq:
  "releaseSession st = Inr (case sessionRef st of
       None \<Rightarrow> st
     | Some p \<Rightarrow> st\<lparr>sessionRef := None, detached := detached st @ [fst (promise_then p Close)],
                     microtasks := microtasks st @ snd (promise_then p Close)\<rparr>)"
  by (cases "sessionRef st")
     (simp_all add: releaseSession_def and_then_def deref_def split_beta)

lemma releaseStream_eq:
  "releaseStream st = Inr (case streamRef st of
       None \<Rightarrow> st
     | Some s \<Rightarrow> st\<lparr>streamRef := None, effects := effects st @ [TracksStop]\<rparr>)"
  by (cases "streamRef st") (simp_all add: releaseStream_def and_then_def deref_def)

lemma releaseProcessor_eq:
  "releaseProcessor st = Inr (case processorRef st of
       None \<Rightarrow> st
     | Some s \<Rightarrow> st\<lparr>processorRef := None, effects := effects st @ [ProcessorDisconnect]\<rparr>)"
  by (cases "processorRef st") (simp_all add: releaseProcessor_def and_then_def deref_def)

lemma releaseInputSource_eq:
  "releaseInputSource st = Inr (case inputSourceRef st of
       None \<Rightarrow> st
     | Some s \<Rightarrow> st\<lparr>inputSourceRef := None, effects := effects st @ [InputSourceDisconnect]\<rparr>)"
  by (cases "inputSourceRef st") (simp_all add: releaseInputSource_def and_then_def deref_def)

lemma releaseAudioContext_eq:
  "releaseAudioContext st = Inr (case audioContextRef st of
       None \<Rightarrow> st
     | Some ctx \<Rightarrow> st\<lparr>audioContextRef := None, effects := effects st @ [AudioContextClose ctx]\<rparr>)"
  by (cases "audioContextRef st") (simp_all add: releaseAudioContext_def and_then_def deref_def)

lemma disconnect_eq:
  "disconnect st =
     Inr (st\<lparr>sessionRef := None, streamRef := None, processorRef := None,
             inputSourceRef := None, audioContextRef := None, sourcesRef := [],
             isConnected := False,
             detached := detached st @
               (case sessionRef st of None \<Rightarrow> [] | Some p \<Rightarrow> [fst (promise_then p Close)]),
             microtasks := microtasks st @
               (case sessionRef st of None \<Rightarrow> [] | Some p \<Rightarrow> snd (promise_then p Close)),
             effects := effects st @
               (case streamRef st of None \<Rightarrow> [] | Some stream \<Rightarrow> [TracksStop]) @
               (case processorRef st of None \<Rightarrow> [] | Some processor \<Rightarrow> [ProcessorDisconnect]) @
               (case inputSourceRef st of None \<Rightarrow> [] | Some source \<Rightarrow> [InputSourceDisconnect]) @
               (case audioContextRef st of None \<Rightarrow> [] | Some ctx \<Rightarrow> [AudioContextClose ctx]) @
               map (\<lambda>s. SourceStop (src_id s)) (sourcesRef st)\<rparr>)"
  by (cases "sessionRef st"; cases "streamRef st"; cases "processorRef st";
      cases "inputSourceRef st"; cases "audioContextRef st")
     (simp_all add: disconnect_def and_then_def releaseSession_eq releaseStream_eq
      releaseProcessor_eq releaseInputSource_eq releaseAudioContext_eq stopSources_def)

lemma disconnect_total: "\<exists>st'. disconnect st = Inr st'"
  by (simp add: disconnect_eq)

lemma disconnect_refs:
  assumes "disconnect st = Inr st'"
  shows "sessionRef st' = None" "streamRef st' = None" "processorRef st' = None"
    "inputSourceRef st' = None" "audioContextRef st' = None" "sourcesRef st' = []"
    "isConnected st' = False"
  using assms by (auto simp add: disconnect_eq)

lemma disconnect_kept:
  assumes "disconnect st = Inr st'"
  shows "messages st' = messages st" "nextStartTimeRef st' = nextStartTimeRef st"
    "currentInputTransRef st' = currentInputTransRef st"
    "currentOutputTransRef st' = currentOutputTransRef st"
    "isMuted st' = isMuted st"
  using assms by (auto simp add: disconnect_eq)

lemma disconnect_effects:
  assumes "disconnect st = Inr st'"
  shows "\<exists>before. effects st' = before @ map (\<lambda>s. SourceStop (src_id s)) (sourcesRef st)"
  using assms by (auto simp add: disconnect_eq)

lemma disconnect_released:
  assumes "sessionRef st = None" "streamRef st = None" "processorRef st = None"
    "inputSourceRef st = None" "audioContextRef st = None" "sourcesRef st = []"
    "isConnected st = False"
  shows "disconnect st = Inr st"
  using assms by (simp add: disconnect_eq)


lemma handleAudio_no_context:
  "audioContextRef st = None \<Longrightarrow> handleAudio atob fl st now message = Inr st"
  by (simp add: handleAudio_def split: option.splits)

text \<open>
  Claim C5, as amended. \<open>disconnect\<close> never throws; it calls \<open>stop\<close> on every source of
  the live set, in the order of the set, and leaves the set empty. It does not write the
  cursor \<open>nextStartTimeRef\<close>, which keeps its value. It leaves \<open>audioContextRef\<close> null, so
  no message schedules a chunk from the old cursor. The cursor is set to zero by
  \<open>initAudio\<close>, which the next \<open>connect\<close> runs first: at once when the new audio context
  is running; when it is suspended, the ref stays null until \<open>resume\<close> has returned and
  the cursor is set to zero then.
\<close>

theorem disconnect_stops_sources:
  "(case disconnect st of
      Inl e \<Rightarrow> False
    | Inr st' \<Rightarrow>
        sourcesRef st' = [] \<and>
        (\<exists>before. effects st' = before @ map (\<lambda>s. SourceStop (src_id s)) (sourcesRef st)) \<and>
        nextStartTimeRef st' = nextStartTimeRef st \<and>
        audioContextRef st' = None \<and>
        handleAudio atob fl st' now message = Inr st' \<and>
        nextStartTimeRef (initAudio st' False) = 0 \<and>
        nextStartTimeRef (connect st' False) = 0 \<and>
        audioContextRef (connect st' False) = Some (AudioContext 24000) \<and>
        audioContextRef (connect st' True) = None \<and>
        handleAudio atob fl (connect st' True) now message = Inr (connect st' True) \<and>
        nextStartTimeRef (connect_resumed (connect st' True)) = 0 \<and>
        audioContextRef (connect_resumed (connect st' True)) = Some (AudioContext 24000))"
proof -
  obtain st' where d: "disconnect st = Inr st'" using disconnect_total by blast
  have "handleAudio atob fl st' now message = Inr st'"
    using disconnect_refs(5) [OF d] by (rule handleAudio_no_context)
  moreover have "audioContextRef (connect st' True) = None"
    using disconnect_refs(5) [OF d] by (simp add: connect_def initAudio_def)
  then have "handleAudio atob fl (connect st' True) now message = Inr (connect st' True)"
    by (rule handleAudio_no_context)
  ultimately show ?thesis
    using disconnect_refs(5,6) [OF d] disconnect_effects [OF d] disconnect_kept(2) [OF d]
    by (simp add: d initAudio_def initAudio_resumed_def connect_def connect_resumed_def)
qed

text \<open>One second of audio is scheduled, then the component disconnects and connects again.\<close>

theorem disconnect_stops_sources_witness:
  "(case schedulePlayback id (initAudio initial False) 24000 0 of
      Inl e \<Rightarrow> False
    | Inr st \<Rightarrow>
        (case disconnect st of
           Inl e \<Rightarrow> False
         | Inr st' \<Rightarrow> sourcesRef st \<noteq> [] \<and> sourcesRef st' = [] \<and>
                      nextStartTimeRef st' = 1 \<and> nextStartTimeRef (connect st' False) = 0))"
proof -
  obtain st where s: "schedulePlayback id (initAudio initial False) 24000 0 = Inr st"
    by (simp add: schedulePlayback_def initAudio_def initAudio_resumed_def initial_def)
  then have n: "sourcesRef st \<noteq> []" and c: "nextStartTimeRef st = 1"
    by (auto simp add: schedulePlayback_def initAudio_def initAudio_resumed_def initial_def)
  obtain st' where d: "disconnect st = Inr st'" using disconnect_total by blast
  show ?thesis
    using disconnect_stops_sources
            [where st = st and atob = Inr and fl = id and now = 0 and message = turnCompleteMarker]
          n c
    by (simp add: s d)
qed

text \<open>
  After one second of audio scheduled at clock 0 the cursor is 1, and it is still 1, not 0,
  after \<open>disconnect\<close>.
\<close>

theorem disconnect_cursor_counterexample:
  "(case schedulePlayback id (initAudio initial False) 24000 0 of
      Inl e \<Rightarrow> False
    | Inr st \<Rightarrow>
        (case disconnect st of
           Inl e \<Rightarrow> False
         | Inr st' \<Rightarrow> nextStartTimeRef st' = 1 \<and> nextStartTimeRef st' \<noteq> 0))"
proof -
  obtain st where s: "schedulePlayback id (initAudio initial False) 24000 0 = Inr st"
    by (simp add: schedulePlayback_def initAudio_def initAudio_resumed_def initial_def)
  then have c: "nextStartTimeRef st = 1"
    by (auto simp add: schedulePlayback_def initAudio_def initAudio_resumed_def initial_def)
  obtain st' where d: "disconnect st = Inr st'" using disconnect_total by blast
  show ?thesis using disconnect_kept(2) [OF d] c by (simp add: s d)
qed

text \<open>
  Claim C9. From any state of the refs, whichever of the session, the stream, the processor,
  the input source and the audio context were acquired, \<open>disconnect\<close> returns without an
  error, and the state it returns is this one: every ref is null and the live set is
  empty; the tracks of a stream held are stopped, a processor and an input source held
  are disconnected, an audio context held is closed, and \<open>stop\<close> is called on every live
  source, in this order; the close of a session held is chained on its promise, so an open
  session is closed when \<open>disconnect\<close> has returned, and one still in its handshake when
  the handshake completes. A second \<open>disconnect\<close> returns without an error too and
  changes nothing. \<open>disconnect\<close> makes no call on the input context of \<open>connect\<close>,
  which no ref holds. Three instances: the component that never connected; the one whose
  \<open>connect\<close> stopped at the refused microphone with only the audio context acquired; and
  a \<open>disconnect\<close> that runs while \<open>connect\<close> waits for the microphone, after which
  \<open>connect\<close> acquires the stream that a later \<open>disconnect\<close> releases.
\<close>

theorem disconnect_idempotent:
  "disconnect st =
     Inr (st\<lparr>sessionRef := None, streamRef := None, processorRef := None,
             inputSourceRef := None, audioContextRef := None, sourcesRef := [],
             isConnected := False,
             detached := detached st @
               (case sessionRef st of None \<Rightarrow> [] | Some p \<Rightarrow> [fst (promise_then p Close)]),
             microtasks := microtasks st @
               (case sessionRef st of None \<Rightarrow> [] | Some p \<Rightarrow> snd (promise_then p Close)),
             effects := effects st @
               (case streamRef st of None \<Rightarrow> [] | Some stream \<Rightarrow> [TracksStop]) @
               (case processorRef st of None \<Rightarrow> [] | Some processor \<Rightarrow> [ProcessorDisconnect]) @
               (case inputSourceRef st of None \<Rightarrow> [] | Some source \<Rightarrow> [InputSourceDisconnect]) @
               (case audioContextRef st of None \<Rightarrow> [] | Some ctx \<Rightarrow> [AudioContextClose ctx]) @
               map (\<lambda>s. SourceStop (src_id s)) (sourcesRef st)\<rparr>) \<and>
   (case disconnect st of
      Inl e \<Rightarrow> False
    | Inr st' \<Rightarrow>
        sourcesRef st' = [] \<and> sessionRef st' = None \<and> streamRef st' = None \<and>
        processorRef st' = None \<and> inputSourceRef st' = None \<and> audioContextRef st' = None \<and>
        disconnect st' = Inr st' \<and>
        (sessionRef st = Some Fulfilled \<longrightarrow>
           effects (run_microtasks st') =
             effects st' @ map run_continuation (microtasks st) @ [SessionClose]) \<and>
        (\<forall>ks. sessionRef st = Some (Pending ks) \<longrightarrow>
           last (detached st') = Pending (ks @ [Close]) \<and>
           fulfil (last (detached st')) = (Fulfilled, ks @ [Close]))) \<and>
   disconnect initial = Inr initial \<and>
   (case disconnect (connect_userMedia (connect initial False) (Inl NotAllowedError)) of
      Inl e \<Rightarrow> False
    | Inr st' \<Rightarrow>
        audioContextRef (connect_userMedia (connect initial False) (Inl NotAllowedError)) \<noteq> None \<and>
        audioContextRef st' = None \<and> sourcesRef st' = []) \<and>
   (case disconnect (connect initial False) of
      Inl e \<Rightarrow> False
    | Inr st1 \<Rightarrow>
        (case disconnect (connect_userMedia st1 (Inr MediaStream)) of
           Inl e \<Rightarrow> False
         | Inr st2 \<Rightarrow>
             streamRef (connect_userMedia st1 (Inr MediaStream)) = Some MediaStream \<and>
             streamRef st2 = None \<and>
             effects st2 = effects (connect_userMedia st1 (Inr MediaStream)) @
               [TracksStop, ProcessorDisconnect, InputSourceDisconnect]))"
proof -
  obtain st' where d: "disconnect st = Inr st'" using disconnect_total by blast
  note r = disconnect_refs [OF d]
  have 1: "sourcesRef st' = [] \<and> sessionRef st' = None \<and> streamRef st' = None \<and>
        processorRef st' = None \<and> inputSourceRef st' = None \<and> audioContextRef st' = None \<and>
        disconnect st' = Inr st'"
    using r by (simp add: disconnect_released)
  have 2: "sessionRef st = Some Fulfilled \<longrightarrow>
           effects (run_microtasks st') =
             effects st' @ map run_continuation (microtasks st) @ [SessionClose]"
    using d by (auto simp add: disconnect_eq run_microtasks_def)
  have 3: "\<forall>ks. sessionRef st = Some (Pending ks) \<longrightarrow>
           last (detached st') = Pending (ks @ [Close]) \<and>
           fulfil (last (detached st')) = (Fulfilled, ks @ [Close])"
    using d by (auto simp add: disconnect_eq)
  have 4: "disconnect initial = Inr initial"
    by (rule disconnect_released) (simp_all add: initial_def)
  have 5: "case disconnect (connect_userMedia (connect initial False) (Inl NotAllowedError)) of
      Inl e \<Rightarrow> False
    | Inr st' \<Rightarrow>
        audioContextRef (connect_userMedia (connect initial False) (Inl NotAllowedError)) \<noteq> None \<and>
        audioContextRef st' = None \<and> sourcesRef st' = []"
    by (simp add: disconnect_eq connect_userMedia_def connect_def initAudio_def
        initAudio_resumed_def)
  have 6: "case disconnect (connect initial False) of
      Inl e \<Rightarrow> False
    | Inr st1 \<Rightarrow>
        (case disconnect (connect_userMedia st1 (Inr MediaStream)) of
           Inl e \<Rightarrow> False
         | Inr st2 \<Rightarrow>
             streamRef (connect_userMedia st1 (Inr MediaStream)) = Some MediaStream \<and>
             streamRef st2 = None \<and>
             effects st2 = effects (connect_userMedia st1 (Inr MediaStream)) @
               [TracksStop, ProcessorDisconnect, InputSourceDisconnect])"
    by (simp add: disconnect_eq connect_userMedia_def)
  show ?thesis
    using 1 2 3 4 5 6 by (simp only: d sum.case disconnect_eq [symmetric])
qed

text \<open>
  A whole session: connect, the handshake, and the disconnect of the open session. The log
  has the calls of \<open>disconnect\<close> in the order of the code, the close of the session last.
\<close>

theorem disconnect_idempotent_witness:
  "sessionRef (run Inr id id initial
      [Connect False, ConnectUserMedia (Inr MediaStream), SessionOpened]) = Some Fulfilled \<and>
   effects (run Inr id id initial
      [Connect False, ConnectUserMedia (Inr MediaStream), SessionOpened, Disconnect])
     = [AudioContextNew (AudioContext 24000), GetUserMedia,
        AudioContextNew (AudioContext 16000), CreateLiveSession,
        TracksStop, ProcessorDisconnect, InputSourceDisconnect,
        AudioContextClose (AudioContext 24000), SessionClose]"
proof -
  let ?s = "run Inr id id initial
      [Connect False, ConnectUserMedia (Inr MediaStream), SessionOpened]"
  have s: "?s = initial\<lparr>isConnected := True, isProcessing := False,
      sessionRef := Some Fulfilled, audioContextRef := Some (AudioContext 24000),
      processorRef := Some (ScriptProcessorNode 4096),
      inputSourceRef := Some MediaStreamAudioSourceNode, streamRef := Some MediaStream,
      effects := [AudioContextNew (AudioContext 24000), GetUserMedia,
        AudioContextNew (AudioContext 16000), CreateLiveSession]\<rparr>"
    by (simp add: run_def step_def run_microtasks_def connect_def initAudio_def
        initAudio_resumed_def connect_userMedia_def session_opened_def onopen_def initial_def)
  have r: "run Inr id id initial
      [Connect False, ConnectUserMedia (Inr MediaStream), SessionOpened, Disconnect]
     = step Inr id id ?s Disconnect"
    by (simp add: run_def)
  note t = disconnect_idempotent [where st = ?s, THEN conjunct1]
  have "effects (step Inr id id ?s Disconnect)
     = [AudioContextNew (AudioContext 24000), GetUserMedia,
        AudioContextNew (AudioContext 16000), CreateLiveSession,
        TracksStop, ProcessorDisconnect, InputSourceDisconnect,
        AudioContextClose (AudioContext 24000), SessionClose]"
    unfolding step_def handle.simps t
    by (simp only: s sum.case) (simp add: run_microtasks_def initial_def)
  then show ?thesis by (simp only: r) (simp add: s)
qed

section \<open>The transcript assembler\<close>

lemma trim_Hello: "trim (js ''Hello'') = js ''Hello''"
  by (simp add: trim_def js_def is_js_space_def)

lemma trim_Hi_there: "trim (js ''Hi there'') = js ''Hi there''"
  by (simp add: trim_def js_def is_js_space_def)

lemma trim_space: "trim (js '' '') = []"
  by (simp add: trim_def js_def is_js_space_def)

lemma js_nonempty: "js s \<noteq> [] \<longleftrightarrow> s \<noteq> []"
  by (simp add: js_def)

lemma trim_ends:
  assumes "trim s \<noteq> []"
  shows "\<not> is_js_space (hd (trim s))" and "\<not> is_js_space (last (trim s))"
proof -
  let ?t = "dropWhile is_js_space s"
  let ?u = "dropWhile is_js_space (rev ?t)"
  from assms have u: "?u \<noteq> []" by (simp add: trim_def)
  have t: "?t \<noteq> []"
  proof
    assume "?t = []"
    then have "?u = []" by (simp only: rev.simps(1) dropWhile.simps(1))
    with u show False by simp
  qed
  have "last (trim s) = hd ?u" using u by (simp add: trim_def last_rev)
  then show "\<not> is_js_space (last (trim s))" using u by (simp add: hd_dropWhile)
  have "hd (trim s) = last ?u" using u by (simp add: trim_def hd_rev)
  also have "\<dots> = last (rev ?t)"
    by (metis u append_take_drop_id dropWhile_eq_drop last_appendR)
  also have "\<dots> = hd ?t" using t by (simp add: last_rev)
  finally show "\<not> is_js_space (hd (trim s))" using t by (simp add: hd_dropWhile)
qed

lemma trim_Nil: "trim [] = []"
  by (simp add: trim_def)

lemma handleAudio_transcripts:
  assumes "handleAudio atob fl st now message = Inr st'"
  shows "messages st' = messages st"
    and "currentInputTransRef st' = currentInputTransRef st"
    and "currentOutputTransRef st' = currentOutputTransRef st"
  using assms
  by (auto simp add: handleAudio_def and_then_def schedulePlayback_def Let_def
      split: option.splits if_splits sum.splits)

lemma appendDeltas_fields:
  "messages (appendDeltas st message) = messages st"
  "currentInputTransRef (appendDeltas st message)
     = currentInputTransRef st @ (case inputTranscription message of None \<Rightarrow> [] | Some t \<Rightarrow> t)"
  "currentOutputTransRef (appendDeltas st message)
     = currentOutputTransRef st @ (case outputTranscription message of None \<Rightarrow> [] | Some t \<Rightarrow> t)"
  by (simp_all add: appendDeltas_def Let_def split: option.splits)

lemma commitTranscripts_fields:
  "messages (commitTranscripts st) = messages st
     @ (if trim (currentInputTransRef st) \<noteq> []
        then [\<lparr>role = User, msg_text = trim (currentInputTransRef st)\<rparr>] else [])
     @ (if trim (currentOutputTransRef st) \<noteq> []
        then [\<lparr>role = Model, msg_text = trim (currentOutputTransRef st)\<rparr>] else [])"
  "currentInputTransRef (commitTranscripts st)
     = (if trim (currentInputTransRef st) \<noteq> [] then [] else currentInputTransRef st)"
  "currentOutputTransRef (commitTranscripts st)
     = (if trim (currentOutputTransRef st) \<noteq> [] then [] else currentOutputTransRef st)"
  by (simp_all add: commitTranscripts_def commitInput_def commitOutput_def)

lemma onmessage_marker:
  "onmessage atob fl st now turnCompleteMarker = Inr (commitTranscripts st)"
  by (simp add: onmessage_def handleAudio_def and_then_def handleTranscripts_def
      appendDeltas_def turnCompleteMarker_def)

lemma onmessage_inputDelta:
  "t \<noteq> [] \<Longrightarrow> onmessage atob fl st now (inputDelta t)
     = Inr (st\<lparr>currentInputTransRef := currentInputTransRef st @ t\<rparr>)"
  by (simp add: onmessage_def handleAudio_def and_then_def handleTranscripts_def
      appendDeltas_def inputDelta_def)

lemma onmessage_outputDelta:
  "t \<noteq> [] \<Longrightarrow> onmessage atob fl st now (outputDelta t)
     = Inr (st\<lparr>currentOutputTransRef := currentOutputTransRef st @ t\<rparr>)"
  by (simp add: onmessage_def handleAudio_def and_then_def handleTranscripts_def
      appendDeltas_def outputDelta_def)

text \<open>
  Claim C2, as amended. The handler never throws on the turn-complete marker. With the
  input buffer \<open>Hello\<close> and the output buffer \<open>Hi there\<close> the history gains exactly the
  user message \<open>Hello\<close> and then the model message \<open>Hi there\<close>; so it does when the two
  texts arrive as deltas before the marker. When the input buffer is blank and the output
  buffer is not, the history gains exactly one model message, the trimmed output buffer.
  When both are blank the history is unchanged. When neither is blank, the user message
  comes before the model message. A buffer is blank when trimming it leaves nothing, so
  an output buffer that received only white space commits no message.
\<close>

theorem turnComplete_commit_order:
  "(case onmessage atob fl st now turnCompleteMarker of
      Inl e \<Rightarrow> False
    | Inr st' \<Rightarrow>
        (currentInputTransRef st = js ''Hello'' \<and> currentOutputTransRef st = js ''Hi there'' \<longrightarrow>
           messages st' = messages st @
             [\<lparr>role = User, msg_text = js ''Hello''\<rparr>, \<lparr>role = Model, msg_text = js ''Hi there''\<rparr>]) \<and>
        (trim (currentInputTransRef st) = [] \<and> trim (currentOutputTransRef st) \<noteq> [] \<longrightarrow>
           messages st' = messages st @
             [\<lparr>role = Model, msg_text = trim (currentOutputTransRef st)\<rparr>]) \<and>
        (trim (currentInputTransRef st) = [] \<and> trim (currentOutputTransRef st) = [] \<longrightarrow>
           messages st' = messages st) \<and>
        (trim (currentInputTransRef st) \<noteq> [] \<and> trim (currentOutputTransRef st) \<noteq> [] \<longrightarrow>
           messages st' = messages st @
             [\<lparr>role = User, msg_text = trim (currentInputTransRef st)\<rparr>,
              \<lparr>role = Model, msg_text = trim (currentOutputTransRef st)\<rparr>])) \<and>
   messages (run atob btoa fl initial
      [Message t1 (inputDelta (js ''Hello'')), Message t2 (outputDelta (js ''Hi there'')),
       Message t3 turnCompleteMarker])
     = [\<lparr>role = User, msg_text = js ''Hello''\<rparr>, \<lparr>role = Model, msg_text = js ''Hi there''\<rparr>]"
proof -
  have "messages (run atob btoa fl initial
      [Message t1 (inputDelta (js ''Hello'')), Message t2 (outputDelta (js ''Hi there'')),
       Message t3 turnCompleteMarker])
     = [\<lparr>role = User, msg_text = js ''Hello''\<rparr>, \<lparr>role = Model, msg_text = js ''Hi there''\<rparr>]"
    by (simp add: run_def step_def run_microtasks_def onmessage_marker onmessage_inputDelta onmessage_outputDelta
        commitTranscripts_fields trim_Hello trim_Hi_there js_nonempty initial_def)
  moreover have "trim (js ''Hello'') \<noteq> []" "trim (js ''Hi there'') \<noteq> []"
    by (simp_all add: trim_Hello trim_Hi_there js_nonempty)
  ultimately show ?thesis
    by (simp add: onmessage_marker commitTranscripts_fields trim_Hello trim_Hi_there)
qed

text \<open>The three cases of the commit, each at a state that satisfies its condition.\<close>

theorem turnComplete_commit_order_witness:
  "currentInputTransRef (initial\<lparr>currentInputTransRef := js ''Hello'', currentOutputTransRef := js ''Hi there''\<rparr>)
     = js ''Hello'' \<and>
   currentOutputTransRef (initial\<lparr>currentInputTransRef := js ''Hello'', currentOutputTransRef := js ''Hi there''\<rparr>)
     = js ''Hi there'' \<and>
   (case onmessage Inr id (initial\<lparr>currentInputTransRef := js ''Hello'', currentOutputTransRef := js ''Hi there''\<rparr>)
           0 turnCompleteMarker of
      Inl e \<Rightarrow> False
    | Inr st' \<Rightarrow> messages st' =
        [\<lparr>role = User, msg_text = js ''Hello''\<rparr>, \<lparr>role = Model, msg_text = js ''Hi there''\<rparr>]) \<and>
   trim (currentInputTransRef (initial\<lparr>currentOutputTransRef := js ''Hi there''\<rparr>)) = [] \<and>
   trim (currentOutputTransRef (initial\<lparr>currentOutputTransRef := js ''Hi there''\<rparr>)) \<noteq> [] \<and>
   (case onmessage Inr id (initial\<lparr>currentOutputTransRef := js ''Hi there''\<rparr>) 0 turnCompleteMarker of
      Inl e \<Rightarrow> False
    | Inr st' \<Rightarrow> messages st' = [\<lparr>role = Model, msg_text = js ''Hi there''\<rparr>]) \<and>
   trim (currentInputTransRef initial) = [] \<and> trim (currentOutputTransRef initial) = [] \<and>
   (case onmessage Inr id initial 0 turnCompleteMarker of
      Inl e \<Rightarrow> False
    | Inr st' \<Rightarrow> messages st' = [])"
  using turnComplete_commit_order
          [where atob = Inr and fl = id and now = 0 and
             st = "initial\<lparr>currentInputTransRef := js ''Hello'', currentOutputTransRef := js ''Hi there''\<rparr>",
           THEN conjunct1]
        turnComplete_commit_order
          [where atob = Inr and fl = id and now = 0 and st = "initial\<lparr>currentOutputTransRef := js ''Hi there''\<rparr>",
           THEN conjunct1]
        turnComplete_commit_order [where atob = Inr and fl = id and now = 0 and st = initial, THEN conjunct1]
  by (simp add: onmessage_marker initial_def trim_Nil trim_Hi_there trim_Hello js_nonempty)

text \<open>
  Only the output buffer receives a delta, one space. The buffer is not empty then, and the
  marker that follows adds no message to the history.
\<close>

theorem blank_output_counterexample:
  "currentOutputTransRef (run Inr id id initial [Message 0 (outputDelta (js '' ''))]) = js '' '' \<and>
   js '' '' \<noteq> [] \<and>
   messages (run Inr id id initial [Message 0 (outputDelta (js '' '')), Message 1 turnCompleteMarker]) = []"
  by (simp add: run_def step_def run_microtasks_def onmessage_marker onmessage_outputDelta js_nonempty
      commitTranscripts_fields trim_space trim_Nil initial_def)

lemma onmessage_buffers:
  assumes "onmessage atob fl st now message = Inr st'"
  shows "messages st' = messages (handleTranscripts st message)"
    and "currentInputTransRef st' = currentInputTransRef (handleTranscripts st message)"
    and "currentOutputTransRef st' = currentOutputTransRef (handleTranscripts st message)"
proof -
  from assms obtain st1 where a: "handleAudio atob fl st now message = Inr st1"
    and s: "st' = handleTranscripts st1 message"
    by (auto simp add: onmessage_def and_then_def split: sum.splits)
  note k = handleAudio_transcripts [OF a]
  show "messages st' = messages (handleTranscripts st message)"
    unfolding s by (simp add: handleTranscripts_def Let_def commitTranscripts_fields appendDeltas_fields k)
  show "currentInputTransRef st' = currentInputTransRef (handleTranscripts st message)"
    unfolding s by (simp add: handleTranscripts_def Let_def commitTranscripts_fields appendDeltas_fields k)
  show "currentOutputTransRef st' = currentOutputTransRef (handleTranscripts st message)"
    unfolding s by (simp add: handleTranscripts_def Let_def commitTranscripts_fields appendDeltas_fields k)
qed

lemma run_microtasks_fields:
  "messages (run_microtasks st) = messages st"
  "currentInputTransRef (run_microtasks st) = currentInputTransRef st"
  "currentOutputTransRef (run_microtasks st) = currentOutputTransRef st"
  by (simp_all add: run_microtasks_def)

lemma handle_other:
  assumes "\<And>now message. ev \<noteq> Message now message"
  shows "messages (handle atob btoa fl st ev) = messages st \<or> messages (handle atob btoa fl st ev) = []"
    and "currentInputTransRef (handle atob btoa fl st ev) = currentInputTransRef st"
    and "currentOutputTransRef (handle atob btoa fl st ev) = currentOutputTransRef st"
proof -
  obtain st' where d: "disconnect st = Inr st'" using disconnect_total by blast
  note k = disconnect_kept [OF d]
  show "messages (handle atob btoa fl st ev) = messages st \<or> messages (handle atob btoa fl st ev) = []"
    using assms k
    by (cases ev)
       (auto simp add: d connect_def initAudio_def initAudio_resumed_def connect_resumed_def
          connect_userMedia_def onaudioprocess_def session_opened_def session_failed_def
          onopen_def onerror_def onclose_def detached_opened_def onended_def Let_def split_beta
          split: sum.splits option.splits)
  show "currentInputTransRef (handle atob btoa fl st ev) = currentInputTransRef st"
    using assms k
    by (cases ev)
       (auto simp add: d connect_def initAudio_def initAudio_resumed_def connect_resumed_def
          connect_userMedia_def onaudioprocess_def session_opened_def session_failed_def
          onopen_def onerror_def onclose_def detached_opened_def onended_def Let_def split_beta
          split: sum.splits option.splits)
  show "currentOutputTransRef (handle atob btoa fl st ev) = currentOutputTransRef st"
    using assms k
    by (cases ev)
       (auto simp add: d connect_def initAudio_def initAudio_resumed_def connect_resumed_def
          connect_userMedia_def onaudioprocess_def session_opened_def session_failed_def
          onopen_def onerror_def onclose_def detached_opened_def onended_def Let_def split_beta
          split: sum.splits option.splits)
qed

lemma step_blank_input:
  assumes "trim (currentInputTransRef st) = []"
    and "\<And>now message. ev = Message now message \<Longrightarrow>
           inputTranscription message = None \<or> inputTranscription message = Some []"
  shows "trim (currentInputTransRef (step atob btoa fl st ev)) = []"
proof (cases "\<exists>now message. ev = Message now message")
  case False
  then have "currentInputTransRef (handle atob btoa fl st ev) = currentInputTransRef st"
    by (intro handle_other(2)) blast
  then show ?thesis using assms(1) by (simp add: step_def run_microtasks_fields)
next
  case True
  then obtain now message where ev: "ev = Message now message" by blast
  show ?thesis
  proof (cases "onmessage atob fl st now message")
    case (Inl e)
    then show ?thesis using assms(1) by (simp add: ev step_def run_microtasks_fields)
  next
    case (Inr st')
    have "currentInputTransRef st' = currentInputTransRef (handleTranscripts st message)"
      by (rule onmessage_buffers(2) [OF Inr])
    then show ?thesis
      using assms(1) assms(2) [OF ev]
      by (auto simp add: ev Inr step_def run_microtasks_fields handleTranscripts_def Let_def
          commitTranscripts_fields appendDeltas_fields trim_Nil)
  qed
qed

lemma step_blank_output:
  assumes "trim (currentOutputTransRef st) = []"
    and "\<And>now message. ev = Message now message \<Longrightarrow>
           outputTranscription message = None \<or> outputTranscription message = Some []"
  shows "trim (currentOutputTransRef (step atob btoa fl st ev)) = []"
proof (cases "\<exists>now message. ev = Message now message")
  case False
  then have "currentOutputTransRef (handle atob btoa fl st ev) = currentOutputTransRef st"
    by (intro handle_other(3)) blast
  then show ?thesis using assms(1) by (simp add: step_def run_microtasks_fields)
next
  case True
  then obtain now message where ev: "ev = Message now message" by blast
  show ?thesis
  proof (cases "onmessage atob fl st now message")
    case (Inl e)
    then show ?thesis using assms(1) by (simp add: ev step_def run_microtasks_fields)
  next
    case (Inr st')
    have "currentOutputTransRef st' = currentOutputTransRef (handleTranscripts st message)"
      by (rule onmessage_buffers(3) [OF Inr])
    then show ?thesis
      using assms(1) assms(2) [OF ev]
      by (auto simp add: ev Inr step_def run_microtasks_fields handleTranscripts_def Let_def
          commitTranscripts_fields appendDeltas_fields trim_Nil)
  qed
qed

lemma run_blank_input:
  assumes "trim (currentInputTransRef st) = []"
    and "\<forall>now message. Message now message \<in> set evs \<longrightarrow>
           inputTranscription message = None \<or> inputTranscription message = Some []"
  shows "trim (currentInputTransRef (run atob btoa fl st evs)) = []"
  using assms
proof (induction evs arbitrary: st)
  case Nil
  then show ?case by (simp add: run_def)
next
  case (Cons ev evs)
  have "trim (currentInputTransRef (step atob btoa fl st ev)) = []"
    using Cons.prems by (intro step_blank_input) auto
  moreover have "\<forall>now message. Message now message \<in> set evs \<longrightarrow>
           inputTranscription message = None \<or> inputTranscription message = Some []"
    using Cons.prems(2) by auto
  ultimately have "trim (currentInputTransRef (run atob btoa fl (step atob btoa fl st ev) evs)) = []"
    by (rule Cons.IH)
  then show ?case by (simp add: run_def)
qed

lemma run_blank_output:
  assumes "trim (currentOutputTransRef st) = []"
    and "\<forall>now message. Message now message \<in> set evs \<longrightarrow>
           outputTranscription message = None \<or> outputTranscription message = Some []"
  shows "trim (currentOutputTransRef (run atob btoa fl st evs)) = []"
  using assms
proof (induction evs arbitrary: st)
  case Nil
  then show ?case by (simp add: run_def)
next
  case (Cons ev evs)
  have "trim (currentOutputTransRef (step atob btoa fl st ev)) = []"
    using Cons.prems by (intro step_blank_output) auto
  moreover have "\<forall>now message. Message now message \<in> set evs \<longrightarrow>
           outputTranscription message = None \<or> outputTranscription message = Some []"
    using Cons.prems(2) by auto
  ultimately have "trim (currentOutputTransRef (run atob btoa fl (step atob btoa fl st ev) evs)) = []"
    by (rule Cons.IH)
  then show ?case by (simp add: run_def)
qed

text \<open>
  Claim C6, as amended. When a message with the turn-complete flag has been handled, both
  buffers are blank: a buffer whose trimmed content was not empty has been emptied, and a
  buffer that held nothing but white space is left as it was. From then on, and from the
  initial state, a buffer stays blank through every run of events, whatever they are, in
  which no message brings a delta for it. So a buffer holds more than white space only
  between a delta and the next handled marker.
\<close>

theorem turnComplete_buffers:
  assumes "turnComplete message" and "onmessage atob fl st now message = Inr st'"
  shows "trim (currentInputTransRef st') = [] \<and> trim (currentOutputTransRef st') = [] \<and>
         currentInputTransRef st' =
           (if trim (currentInputTransRef (appendDeltas st message)) \<noteq> [] then []
            else currentInputTransRef (appendDeltas st message)) \<and>
         currentOutputTransRef st' =
           (if trim (currentOutputTransRef (appendDeltas st message)) \<noteq> [] then []
            else currentOutputTransRef (appendDeltas st message)) \<and>
         ((\<forall>t m. Message t m \<in> set evs \<longrightarrow>
             inputTranscription m = None \<or> inputTranscription m = Some []) \<longrightarrow>
          trim (currentInputTransRef (run atob btoa fl st' evs)) = [] \<and>
          trim (currentInputTransRef (run atob btoa fl initial evs)) = []) \<and>
         ((\<forall>t m. Message t m \<in> set evs \<longrightarrow>
             outputTranscription m = None \<or> outputTranscription m = Some []) \<longrightarrow>
          trim (currentOutputTransRef (run atob btoa fl st' evs)) = [] \<and>
          trim (currentOutputTransRef (run atob btoa fl initial evs)) = [])"
proof -
  have b: "trim (currentInputTransRef st') = [] \<and> trim (currentOutputTransRef st') = [] \<and>
         currentInputTransRef st' =
           (if trim (currentInputTransRef (appendDeltas st message)) \<noteq> [] then []
            else currentInputTransRef (appendDeltas st message)) \<and>
         currentOutputTransRef st' =
           (if trim (currentOutputTransRef (appendDeltas st message)) \<noteq> [] then []
            else currentOutputTransRef (appendDeltas st message))"
    using assms(1) onmessage_buffers(2,3) [OF assms(2)]
    by (simp add: handleTranscripts_def commitTranscripts_fields trim_Nil)
  have i: "trim (currentInputTransRef initial) = []" "trim (currentOutputTransRef initial) = []"
    by (simp_all add: initial_def trim_Nil)
  show ?thesis
    using b i run_blank_input [where atob = atob and btoa = btoa and fl = fl and evs = evs]
      run_blank_output [where atob = atob and btoa = btoa and fl = fl and evs = evs]
    by blast
qed

text \<open>
  The input buffer \<open>Hello\<close> is committed and emptied; the output buffer, one space, stays.
  Then the session closes, an output delta arrives and the component disconnects: the
  input buffer is still empty.
\<close>

theorem turnComplete_buffers_witness:
  "turnComplete turnCompleteMarker \<and>
   onmessage Inr id (initial\<lparr>currentInputTransRef := js ''Hello'', currentOutputTransRef := js '' ''\<rparr>)
       0 turnCompleteMarker
     = Inr (initial\<lparr>currentInputTransRef := [], currentOutputTransRef := js '' '',
                    messages := [\<lparr>role = User, msg_text = js ''Hello''\<rparr>]\<rparr>) \<and>
   trim (js '' '') = [] \<and>
   trim (currentInputTransRef
     (run Inr id id (initial\<lparr>currentInputTransRef := [], currentOutputTransRef := js '' '',
                              messages := [\<lparr>role = User, msg_text = js ''Hello''\<rparr>]\<rparr>)
        [SessionClosed, Message 1 (outputDelta (js ''Hi'')), Disconnect])) = []"
proof -
  have m: "turnComplete turnCompleteMarker" by (simp add: turnCompleteMarker_def)
  have o: "onmessage Inr id (initial\<lparr>currentInputTransRef := js ''Hello'', currentOutputTransRef := js '' ''\<rparr>)
       0 turnCompleteMarker
     = Inr (initial\<lparr>currentInputTransRef := [], currentOutputTransRef := js '' '',
                    messages := [\<lparr>role = User, msg_text = js ''Hello''\<rparr>]\<rparr>)"
    by (simp add: onmessage_marker commitTranscripts_def commitInput_def commitOutput_def
        trim_Hello trim_space js_nonempty initial_def)
  have e: "\<forall>t m. Message t m \<in> set [SessionClosed, Message 1 (outputDelta (js ''Hi'')), Disconnect]
             \<longrightarrow> inputTranscription m = None \<or> inputTranscription m = Some []"
    by (simp add: outputDelta_def)
  note t = turnComplete_buffers [OF m o, where btoa = id
      and evs = "[SessionClosed, Message 1 (outputDelta (js ''Hi'')), Disconnect]"]
  from t e have "trim (currentInputTransRef
     (run Inr id id (initial\<lparr>currentInputTransRef := [], currentOutputTransRef := js '' '',
                              messages := [\<lparr>role = User, msg_text = js ''Hello''\<rparr>]\<rparr>)
        [SessionClosed, Message 1 (outputDelta (js ''Hi'')), Disconnect])) = []"
    by blast
  then show ?thesis using m o by (simp add: trim_space)
qed

text \<open>
  After an output delta of one space and then the marker, the output buffer still holds the
  space: it is not empty.
\<close>

theorem whitespace_buffer_counterexample:
  "turnComplete turnCompleteMarker \<and>
   currentOutputTransRef
     (run Inr id id initial [Message 0 (outputDelta (js '' '')), Message 1 turnCompleteMarker]) = js '' '' \<and>
   js '' '' \<noteq> []"
proof -
  have "turnComplete turnCompleteMarker" by (simp add: turnCompleteMarker_def)
  moreover have "currentOutputTransRef
     (run Inr id id initial [Message 0 (outputDelta (js '' '')), Message 1 turnCompleteMarker]) = js '' ''"
    by (simp add: run_def step_def run_microtasks_def onmessage_marker onmessage_outputDelta js_nonempty
        commitTranscripts_fields trim_space initial_def)
  ultimately show ?thesis by (simp add: js_nonempty)
qed

lemma handleTranscripts_messages:
  "messages (handleTranscripts st message) =
     messages st @
     (if turnComplete message \<and> trim (currentInputTransRef (appendDeltas st message)) \<noteq> []
      then [\<lparr>role = User, msg_text = trim (currentInputTransRef (appendDeltas st message))\<rparr>]
      else []) @
     (if turnComplete message \<and> trim (currentOutputTransRef (appendDeltas st message)) \<noteq> []
      then [\<lparr>role = Model, msg_text = trim (currentOutputTransRef (appendDeltas st message))\<rparr>]
      else [])"
  by (simp add: handleTranscripts_def Let_def commitTranscripts_fields appendDeltas_fields)

lemma onmessage_new_messages:
  assumes "onmessage atob fl st now message = Inr st'"
  shows "\<exists>newMessages. messages st' = messages st @ newMessages \<and>
           (\<forall>m \<in> set newMessages.
              msg_text m \<noteq> [] \<and> \<not> is_js_space (hd (msg_text m)) \<and>
              \<not> is_js_space (last (msg_text m)) \<and>
              msg_text m = trim (case role m of
                                   User \<Rightarrow> currentInputTransRef (appendDeltas st message)
                                 | Model \<Rightarrow> currentOutputTransRef (appendDeltas st message)))"
proof -
  let ?i = "trim (currentInputTransRef (appendDeltas st message))"
  let ?o = "trim (currentOutputTransRef (appendDeltas st message))"
  let ?new = "(if turnComplete message \<and> ?i \<noteq> [] then [\<lparr>role = User, msg_text = ?i\<rparr>] else []) @
              (if turnComplete message \<and> ?o \<noteq> [] then [\<lparr>role = Model, msg_text = ?o\<rparr>] else [])"
  have "messages st' = messages st @ ?new"
    using onmessage_buffers(1) [OF assms] by (simp only: handleTranscripts_messages)
  moreover have "\<forall>m \<in> set ?new.
              msg_text m \<noteq> [] \<and> \<not> is_js_space (hd (msg_text m)) \<and>
              \<not> is_js_space (last (msg_text m)) \<and>
              msg_text m = trim (case role m of
                                   User \<Rightarrow> currentInputTransRef (appendDeltas st message)
                                 | Model \<Rightarrow> currentOutputTransRef (appendDeltas st message))"
    by (auto simp add: trim_ends)
  ultimately show ?thesis by blast
qed

lemma step_messages:
  assumes "\<forall>m \<in> set (messages st). P (msg_text m)"
    and "\<And>s. trim s \<noteq> [] \<Longrightarrow> P (trim s)"
  shows "\<forall>m \<in> set (messages (step atob btoa fl st ev)). P (msg_text m)"
proof (cases "\<exists>now message. ev = Message now message")
  case False
  then have "messages (handle atob btoa fl st ev) = messages st
               \<or> messages (handle atob btoa fl st ev) = []"
    by (intro handle_other(1)) blast
  then show ?thesis
    using assms(1) by (auto simp add: step_def run_microtasks_fields)
next
  case True
  then obtain now message where ev: "ev = Message now message" by blast
  show ?thesis
  proof (cases "onmessage atob fl st now message")
    case (Inl e)
    then show ?thesis using assms(1) by (simp add: ev step_def run_microtasks_fields)
  next
    case (Inr st')
    have "messages st' = messages (handleTranscripts st message)"
      by (rule onmessage_buffers(1) [OF Inr])
    then show ?thesis
      using assms
      by (auto simp add: ev Inr step_def run_microtasks_fields handleTranscripts_messages)
  qed
qed

lemma run_messages:
  assumes "\<forall>m \<in> set (messages st). P (msg_text m)"
    and "\<And>s. trim s \<noteq> [] \<Longrightarrow> P (trim s)"
  shows "\<forall>m \<in> set (messages (run atob btoa fl st evs)). P (msg_text m)"
  using assms(1)
proof (induction evs arbitrary: st)
  case Nil
  then show ?case by (simp add: run_def)
next
  case (Cons ev evs)
  have "\<forall>m \<in> set (messages (step atob btoa fl st ev)). P (msg_text m)"
    using Cons.prems assms(2) by (rule step_messages)
  from Cons.IH [OF this] show ?case by (simp add: run_def)
qed

text \<open>
  Claim C10. What a handled message appends to the history are messages whose text is the
  trimmed content of the buffer of their role, deltas of that message included; each text
  is non-empty and neither starts nor ends with a white space code unit. In every run of
  the component from its initial state, every message of the history is of that kind.
\<close>

theorem committed_text_trimmed:
  assumes "onmessage atob fl st now message = Inr st'"
  shows "(\<exists>newMessages. messages st' = messages st @ newMessages \<and>
           (\<forall>m \<in> set newMessages.
              msg_text m \<noteq> [] \<and> \<not> is_js_space (hd (msg_text m)) \<and>
              \<not> is_js_space (last (msg_text m)) \<and>
              msg_text m = trim (case role m of
                                   User \<Rightarrow> currentInputTransRef (appendDeltas st message)
                                 | Model \<Rightarrow> currentOutputTransRef (appendDeltas st message)))) \<and>
         (\<forall>m \<in> set (messages (run atob btoa fl initial evs)).
            msg_text m \<noteq> [] \<and> \<not> is_js_space (hd (msg_text m)) \<and>
            \<not> is_js_space (last (msg_text m)))"
proof -
  have "\<forall>m \<in> set (messages (run atob btoa fl initial evs)).
          (\<lambda>t. t \<noteq> [] \<and> \<not> is_js_space (hd t) \<and> \<not> is_js_space (last t)) (msg_text m)"
    by (rule run_messages) (simp_all add: initial_def trim_ends)
  then show ?thesis using onmessage_new_messages [OF assms] by simp
qed

text \<open>The input text \<open>Hello\<close> with two spaces before and one after is committed as \<open>Hello\<close>.\<close>

theorem committed_text_trimmed_witness:
  "onmessage Inr id (initial\<lparr>currentInputTransRef := js ''  Hello ''\<rparr>) 0 turnCompleteMarker
     = Inr (initial\<lparr>currentInputTransRef := [],
                    messages := [\<lparr>role = User, msg_text = js ''Hello''\<rparr>]\<rparr>) \<and>
   messages (run Inr id id initial
      [Message 0 (inputDelta (js ''  Hello '')), Message 1 turnCompleteMarker])
     = [\<lparr>role = User, msg_text = js ''Hello''\<rparr>]"
proof -
  have t: "trim (js ''  Hello '') = js ''Hello''"
    by (simp add: trim_def js_def is_js_space_def)
  have o: "onmessage Inr id (initial\<lparr>currentInputTransRef := js ''  Hello ''\<rparr>) 0 turnCompleteMarker
     = Inr (initial\<lparr>currentInputTransRef := [],
                    messages := [\<lparr>role = User, msg_text = js ''Hello''\<rparr>]\<rparr>)"
    by (simp add: onmessage_marker commitTranscripts_def commitInput_def commitOutput_def
        t trim_Nil js_nonempty initial_def)
  have r: "messages (run Inr id id initial
      [Message 0 (inputDelta (js ''  Hello '')), Message 1 turnCompleteMarker])
     = [\<lparr>role = User, msg_text = js ''Hello''\<rparr>]"
    by (simp add: run_def step_def run_microtasks_def onmessage_marker onmessage_inputDelta js_nonempty
        commitTranscripts_fields t trim_Nil initial_def)
  from committed_text_trimmed [OF o] show ?thesis using o r by simp
qed


section \<open>Capture frames and the session promise\<close>

lemma onaudioprocess_no_session:
  "sessionRef st = None \<Longrightarrow> onaudioprocess btoa st inputData = st"
  by (simp add: onaudioprocess_def)

lemma onaudioprocess_rejected:
  "sessionRef st = Some Rejected \<Longrightarrow> onaudioprocess btoa st inputData = st"
  by (simp add: onaudioprocess_def)

lemma run_microtasks_idle: "microtasks st = [] \<Longrightarrow> run_microtasks st = st"
  by (simp add: run_microtasks_def)

text \<open>
  Claim C7, as amended. A frame captured while \<open>sessionRef\<close> is null, which is the case
  before \<open>connect\<close> has stored a session and after \<open>disconnect\<close>, is dropped: the state is
  unchanged, so nothing is sent or queued and no later event can deliver it. A frame
  captured during the handshake is not dropped: nothing is sent in its task, the frame is
  chained on the pending promise, and when the handshake completes it is sent, after the
  frames chained before it; when the handshake fails instead, the state is the one a
  failed handshake leaves without the frame, so the frame is never sent. On a fulfilled
  promise the frame is handed to \<open>sendRealtimeInput\<close> when the callback has returned,
  and so it is after \<open>onclose\<close>, which leaves \<open>sessionRef\<close> as it is: a frame captured
  after the session closed is not dropped by the component. After a failed handshake a
  frame is dropped.
\<close>

theorem capture_frame_delivery:
  "(sessionRef st = None \<longrightarrow>
      onaudioprocess btoa st inputData = st \<and>
      (microtasks st = [] \<longrightarrow>
         run atob btoa fl st (AudioProcess inputData # evs) = run atob btoa fl st evs)) \<and>
   (sessionRef st = Some (Pending ks) \<longrightarrow>
      effects (step atob btoa fl st (AudioProcess inputData)) =
        effects st @ map run_continuation (microtasks st) \<and>
      sessionRef (onaudioprocess btoa st inputData) =
        Some (Pending (ks @ [SendRealtimeInput
          (arrayBufferToBase64 btoa (buffer_of (floatTo16BitPCM inputData)))])) \<and>
      effects (step atob btoa fl (onaudioprocess btoa st inputData) SessionOpened) =
        effects st @ map run_continuation (microtasks st) @ map run_continuation ks @
          [SessionSendRealtimeInput
             (arrayBufferToBase64 btoa (buffer_of (floatTo16BitPCM inputData)))] \<and>
      session_failed (onaudioprocess btoa st inputData) = session_failed st \<and>
      sessionRef (session_failed st) = Some Rejected) \<and>
   (sessionRef st = Some Fulfilled \<longrightarrow>
      effects (step atob btoa fl st (AudioProcess inputData)) =
        effects st @ map run_continuation (microtasks st) @
          [SessionSendRealtimeInput
             (arrayBufferToBase64 btoa (buffer_of (floatTo16BitPCM inputData)))] \<and>
      effects (step atob btoa fl (onclose st) (AudioProcess inputData)) =
        effects st @ map run_continuation (microtasks st) @
          [SessionSendRealtimeInput
             (arrayBufferToBase64 btoa (buffer_of (floatTo16BitPCM inputData)))]) \<and>
   (sessionRef st = Some Rejected \<longrightarrow> onaudioprocess btoa st inputData = st) \<and>
   (case disconnect st of
      Inl e \<Rightarrow> False
    | Inr st' \<Rightarrow> onaudioprocess btoa st' inputData = st')"
proof -
  obtain st' where d: "disconnect st = Inr st'" using disconnect_total by blast
  have a: "onaudioprocess btoa st' inputData = st'"
    using disconnect_refs(1) [OF d] by (rule onaudioprocess_no_session)
  have n: "sessionRef st = None \<longrightarrow>
      onaudioprocess btoa st inputData = st \<and>
      (microtasks st = [] \<longrightarrow>
         run atob btoa fl st (AudioProcess inputData # evs) = run atob btoa fl st evs)"
    by (simp add: onaudioprocess_no_session run_def step_def run_microtasks_idle)
  have p: "sessionRef st = Some (Pending ks) \<longrightarrow>
      effects (step atob btoa fl st (AudioProcess inputData)) =
        effects st @ map run_continuation (microtasks st) \<and>
      sessionRef (onaudioprocess btoa st inputData) =
        Some (Pending (ks @ [SendRealtimeInput
          (arrayBufferToBase64 btoa (buffer_of (floatTo16BitPCM inputData)))])) \<and>
      effects (step atob btoa fl (onaudioprocess btoa st inputData) SessionOpened) =
        effects st @ map run_continuation (microtasks st) @ map run_continuation ks @
          [SessionSendRealtimeInput
             (arrayBufferToBase64 btoa (buffer_of (floatTo16BitPCM inputData)))] \<and>
      session_failed (onaudioprocess btoa st inputData) = session_failed st \<and>
      sessionRef (session_failed st) = Some Rejected"
    by (simp add: step_def run_microtasks_def onaudioprocess_def session_opened_def
        session_failed_def onopen_def onerror_def)
  have f: "sessionRef st = Some Fulfilled \<longrightarrow>
      effects (step atob btoa fl st (AudioProcess inputData)) =
        effects st @ map run_continuation (microtasks st) @
          [SessionSendRealtimeInput
             (arrayBufferToBase64 btoa (buffer_of (floatTo16BitPCM inputData)))] \<and>
      effects (step atob btoa fl (onclose st) (AudioProcess inputData)) =
        effects st @ map run_continuation (microtasks st) @
          [SessionSendRealtimeInput
             (arrayBufferToBase64 btoa (buffer_of (floatTo16BitPCM inputData)))]"
    by (simp add: step_def run_microtasks_def onaudioprocess_def onclose_def)
  show ?thesis
    using n p f a by (simp add: d onaudioprocess_rejected)
qed

text \<open>
  One frame of one silent sample: before any connect, during the handshake, during a
  handshake that then fails, and once open.
\<close>

theorem capture_frame_delivery_witness:
  "sessionRef initial = None \<and> onaudioprocess id initial [Finite 0] = initial \<and>
   sessionRef (connect_userMedia (connect initial False) (Inr MediaStream)) = Some (Pending []) \<and>
   sessionRef (onaudioprocess id (connect_userMedia (connect initial False) (Inr MediaStream))
                 [Finite 0])
     = Some (Pending [SendRealtimeInput [0, 0]]) \<and>
   session_failed (onaudioprocess id (connect_userMedia (connect initial False) (Inr MediaStream))
                     [Finite 0])
     = session_failed (connect_userMedia (connect initial False) (Inr MediaStream)) \<and>
   sessionRef (session_opened (connect_userMedia (connect initial False) (Inr MediaStream)))
     = Some Fulfilled \<and>
   effects (step Inr id id
              (session_opened (connect_userMedia (connect initial False) (Inr MediaStream)))
              (AudioProcess [Finite 0]))
     = [AudioContextNew (AudioContext 24000), GetUserMedia,
        AudioContextNew (AudioContext 16000), CreateLiveSession,
        SessionSendRealtimeInput [0, 0]]"
proof -
  let ?c = "connect_userMedia (connect initial False) (Inr MediaStream)"
  have p: "arrayBufferToBase64 id (buffer_of (floatTo16BitPCM [Finite 0])) = [0, 0]"
    by (simp add: arrayBufferToBase64_def buffer_of_def int16_bytes_def floatTo16BitPCM_def
        encode_sample_def js_trunc_def)
  have 1: "sessionRef initial = None" by (simp add: initial_def)
  have 2: "sessionRef ?c = Some (Pending [])"
    by (simp add: connect_userMedia_def)
  have 3: "sessionRef (session_opened ?c) = Some Fulfilled"
    by (simp add: session_opened_def onopen_def connect_userMedia_def)
  have 4: "effects (session_opened ?c)
             = [AudioContextNew (AudioContext 24000), GetUserMedia,
                AudioContextNew (AudioContext 16000), CreateLiveSession]"
    "microtasks (session_opened ?c) = []"
    by (simp_all add: session_opened_def onopen_def connect_userMedia_def connect_def
        initAudio_def initAudio_resumed_def initial_def)
  show ?thesis
    using capture_frame_delivery [where st = initial and btoa = id and inputData = "[Finite 0]"]
      capture_frame_delivery [where st = ?c and btoa = id and inputData = "[Finite 0]"
        and ks = "[]"]
      capture_frame_delivery [where st = "session_opened ?c" and atob = Inr and fl = id
        and btoa = id and inputData = "[Finite 0]"]
    by (simp add: 1 2 3 4 p)
qed

text \<open>
  A frame captured between \<open>connect\<close> and the end of the handshake is not sent in its task
  and is sent when the session opens. A frame captured after the session has opened and
  closed is handed to \<open>sendRealtimeInput\<close> all the same. The payload is the two bytes of
  one silent sample.
\<close>

theorem handshake_frame_counterexample:
  "sessionRef (run Inr id id initial [Connect False, ConnectUserMedia (Inr MediaStream)])
     = Some (Pending []) \<and>
   effects (run Inr id id initial
      [Connect False, ConnectUserMedia (Inr MediaStream), AudioProcess [Finite 0]])
     = [AudioContextNew (AudioContext 24000), GetUserMedia,
        AudioContextNew (AudioContext 16000), CreateLiveSession] \<and>
   effects (run Inr id id initial
      [Connect False, ConnectUserMedia (Inr MediaStream), AudioProcess [Finite 0], SessionOpened])
     = [AudioContextNew (AudioContext 24000), GetUserMedia,
        AudioContextNew (AudioContext 16000), CreateLiveSession,
        SessionSendRealtimeInput [0, 0]] \<and>
   effects (run Inr id id initial
      [Connect False, ConnectUserMedia (Inr MediaStream), SessionOpened, SessionClosed,
       AudioProcess [Finite 0]])
     = [AudioContextNew (AudioContext 24000), GetUserMedia,
        AudioContextNew (AudioContext 16000), CreateLiveSession,
        SessionSendRealtimeInput [0, 0]]"
proof -
  have p: "arrayBufferToBase64 id (buffer_of (floatTo16BitPCM [Finite 0])) = [0, 0]"
    by (simp add: arrayBufferToBase64_def buffer_of_def int16_bytes_def floatTo16BitPCM_def
        encode_sample_def js_trunc_def)
  show ?thesis
    by (simp add: run_def step_def run_microtasks_def connect_def initAudio_def
        initAudio_resumed_def connect_userMedia_def onaudioprocess_def session_opened_def
        onopen_def onclose_def p initial_def)
qed


section \<open>The playback schedule\<close>

lemma schedulePlayback_Inr:
  assumes "schedulePlayback fl st n now = Inr st'"
  shows "0 < n"
    and "nextStartTimeRef st' = fl (max (nextStartTimeRef st) now + fl (real n / 24000))"
    and "sourcesRef st' = sourcesRef st @
           [\<lparr>src_id = created st, startAt = max (nextStartTimeRef st) now,
             duration = fl (real n / 24000)\<rparr>]"
    and "effects st' = effects st @ [SourceStart (created st) (max (nextStartTimeRef st) now)]"
  using assms by (auto simp add: schedulePlayback_def Let_def split: if_splits)

lemma schedulePlayback_Inl:
  assumes "schedulePlayback fl st n now = Inl e"
  shows "n = 0 \<or> max (nextStartTimeRef st) now < 0"
  using assms by (auto simp add: schedulePlayback_def Let_def split: if_splits)

lemma schedulePlayback_interval:
  assumes "schedulePlayback fl st n now = Inr st'"
  shows "interval_of fl (last (sourcesRef st'))
           = (max (nextStartTimeRef st) now, nextStartTimeRef st')"
  by (simp add: schedulePlayback_Inr(2,3) [OF assms] interval_of_def)

lemma schedulePlayback_succeeds:
  assumes "0 < n" and "0 \<le> now"
  shows "\<exists>st'. schedulePlayback fl st n now = Inr st'"
  using assms by (simp add: schedulePlayback_def Let_def)

text \<open>
  What the proofs use of the rounding: it is monotone and it leaves zero and every double,
  that is every value of its own, unchanged. The cursor and the clock readings are doubles.
\<close>

lemma rounded_sum_ge:
  assumes mono: "\<And>x y. x \<le> y \<Longrightarrow> fl x \<le> fl y" and zero: "fl 0 = 0"
    and s: "fl s = s"
  shows "s \<le> fl (s + fl (real n / 24000))"
proof -
  have "fl 0 \<le> fl (real n / 24000)" by (rule mono) simp
  then have "s \<le> s + fl (real n / 24000)" by (simp add: zero)
  then have "fl s \<le> fl (s + fl (real n / 24000))" by (rule mono)
  then show ?thesis by (simp add: s)
qed

lemma schedulePlayback_cursor:
  assumes mono: "\<And>x y. x \<le> y \<Longrightarrow> fl x \<le> fl y" and zero: "fl 0 = 0"
    and idem: "\<And>x. fl (fl x) = fl x"
    and cur: "fl (nextStartTimeRef st) = nextStartTimeRef st" and clk: "fl now = now"
    and "schedulePlayback fl st n now = Inr st'"
  shows "max (nextStartTimeRef st) now \<le> nextStartTimeRef st'"
    and "nextStartTimeRef st \<le> nextStartTimeRef st'"
    and "fl (nextStartTimeRef st') = nextStartTimeRef st'"
proof -
  let ?s = "max (nextStartTimeRef st) now"
  have s: "fl ?s = ?s" using cur clk by (simp add: max_def)
  note c = schedulePlayback_Inr(2) [OF assms(6)]
  show 1: "?s \<le> nextStartTimeRef st'"
    unfolding c using mono zero s by (rule rounded_sum_ge)
  then show "nextStartTimeRef st \<le> nextStartTimeRef st'" by simp
  show "fl (nextStartTimeRef st') = nextStartTimeRef st'" unfolding c by (rule idem)
qed

lemma enqueue_all_bounds:
  assumes mono: "\<And>x y. x \<le> y \<Longrightarrow> fl x \<le> fl y" and zero: "fl 0 = 0"
    and idem: "\<And>x. fl (fl x) = fl x"
    and "fl (nextStartTimeRef st) = nextStartTimeRef st"
    and "\<forall>(n, t) \<in> set reqs. fl t = t"
    and "enqueue_all fl st reqs = (ivs, st')"
  shows "nextStartTimeRef st \<le> nextStartTimeRef st' \<and>
         (\<forall>iv \<in> set ivs. nextStartTimeRef st \<le> fst iv \<and> fst iv \<le> snd iv \<and>
                           snd iv \<le> nextStartTimeRef st') \<and>
         sorted_wrt (\<lambda>a b. snd a \<le> fst b \<and> fst a \<le> fst b) ivs"
  using assms(4-6)
proof (induction reqs arbitrary: st ivs st')
  case Nil
  then show ?case by simp
next
  case (Cons req reqs)
  obtain n now where req: "req = (n, now)" by (cases req)
  have clk: "fl now = now" and rest_clk: "\<forall>(n, t) \<in> set reqs. fl t = t"
    using Cons.prems(2) req by simp_all
  show ?case
  proof (cases "schedulePlayback fl st n now")
    case (Inl e)
    with Cons.prems req have "enqueue_all fl st reqs = (ivs, st')" by simp
    with Cons.prems(1) rest_clk show ?thesis by (rule Cons.IH)
  next
    case (Inr st1)
    obtain ivs1 where rest: "enqueue_all fl st1 reqs = (ivs1, st')"
      and ivs: "ivs = interval_of fl (last (sourcesRef st1)) # ivs1"
      using Cons.prems req Inr by (auto split: prod.splits)
    note c = schedulePlayback_cursor [OF mono zero idem Cons.prems(1) clk Inr]
    note ih = Cons.IH [OF c(3) rest_clk rest]
    let ?s = "max (nextStartTimeRef st) now"
    have iv: "interval_of fl (last (sourcesRef st1)) = (?s, nextStartTimeRef st1)"
      by (rule schedulePlayback_interval [OF Inr])
    have s: "nextStartTimeRef st \<le> ?s" by simp
    show ?thesis
      unfolding ivs iv using ih c(1) s by (auto intro: order_trans)
  qed
qed

lemma onmessage_empty_chunk:
  assumes "audioData message = Some payload" and "payload \<noteq> []" and "atob payload = Inr []"
    and "\<not> isMuted st" and "audioContextRef st \<noteq> None"
  shows "onmessage atob fl st now message = Inl NotSupportedError"
  using assms
  by (simp add: onmessage_def handleAudio_def and_then_def base64ToUint8Array_def
      newInt16Array_def pcm16ToFloat32_def schedulePlayback_def)

text \<open>
  Claim C1, as amended. The rounding \<open>fl\<close> is any monotone function that leaves zero and
  its own values unchanged, as the rounding of IEEE 754 does; the cursor at the beginning
  and the clock readings are doubles. Then in every run of scheduling calls, whatever the
  chunk lengths and the clock readings, the intervals of the scheduled sources, each from
  its start time to the double sum of start time and duration, do not overlap and their
  start times do not decrease, no interval ends before it starts, and the cursor at the
  end is not before the cursor at the beginning. A call that schedules a chunk of \<open>n\<close>
  samples starts it at the maximum of the cursor and the clock (the time given to
  \<open>start\<close>), adds that source to the live set and moves the cursor to the double sum of
  that start time and the duration of the chunk, never backwards; a call for a non-empty
  chunk at a non-negative clock does schedule. A chunk of length zero is not a no-op:
  \<open>createBuffer\<close> throws for it. The throw comes before anything is written, so the
  cursor, the live set and every later start time are as if the chunk had not arrived,
  but it ends the handler: a message whose payload decodes to no byte is answered by
  NotSupportedError and leaves the state as it was, whatever transcript deltas and
  turn-complete flag it carries.
\<close>

theorem playback_schedule:
  assumes mono: "\<And>x y. x \<le> y \<Longrightarrow> fl x \<le> fl y" and zero: "fl 0 = 0"
    and idem: "\<And>x. fl (fl x) = fl x"
    and cur: "fl (nextStartTimeRef st) = nextStartTimeRef st"
    and clks: "\<forall>(n, t) \<in> set reqs. fl t = t" and clk: "fl now = now"
  shows
  "(case enqueue_all fl st reqs of (ivs, st') \<Rightarrow>
      (\<forall>i j. i < j \<and> j < length ivs \<longrightarrow>
         snd (ivs ! i) \<le> fst (ivs ! j) \<and> fst (ivs ! i) \<le> fst (ivs ! j)) \<and>
      (\<forall>iv \<in> set ivs. fst iv \<le> snd iv) \<and>
      nextStartTimeRef st \<le> nextStartTimeRef st') \<and>
   (case schedulePlayback fl st n now of
      Inl e \<Rightarrow> n = 0 \<or> max (nextStartTimeRef st) now < 0
    | Inr st' \<Rightarrow>
        interval_of fl (last (sourcesRef st'))
          = (max (nextStartTimeRef st) now,
             fl (max (nextStartTimeRef st) now + fl (real n / 24000))) \<and>
        sourcesRef st' = sourcesRef st @ [last (sourcesRef st')] \<and>
        effects st' = effects st @ [SourceStart (created st) (max (nextStartTimeRef st) now)] \<and>
        nextStartTimeRef st' = fl (max (nextStartTimeRef st) now + fl (real n / 24000)) \<and>
        nextStartTimeRef st \<le> nextStartTimeRef st') \<and>
   (0 < n \<and> 0 \<le> now \<longrightarrow> (\<exists>st'. schedulePlayback fl st n now = Inr st')) \<and>
   schedulePlayback fl st 0 now = Inl NotSupportedError \<and>
   enqueue_all fl st ((0, now) # reqs) = enqueue_all fl st reqs \<and>
   (audioData message = Some payload \<and> payload \<noteq> [] \<and> atob payload = Inr [] \<and>
    \<not> isMuted st \<and> audioContextRef st \<noteq> None \<longrightarrow>
      onmessage atob fl st now message = Inl NotSupportedError \<and>
      handle atob btoa fl st (Message now message) = st)"
proof -
  obtain ivs st' where e: "enqueue_all fl st reqs = (ivs, st')"
    by (cases "enqueue_all fl st reqs")
  note b = enqueue_all_bounds [OF mono zero idem cur clks e]
  have 1: "\<forall>i j. i < j \<and> j < length ivs \<longrightarrow>
         snd (ivs ! i) \<le> fst (ivs ! j) \<and> fst (ivs ! i) \<le> fst (ivs ! j)"
    using b by (simp add: sorted_wrt_iff_nth_less)
  have 2: "\<forall>iv \<in> set ivs. fst iv \<le> snd iv" using b by blast
  have 3: "nextStartTimeRef st \<le> nextStartTimeRef st'" using b by blast
  have 4: "case schedulePlayback fl st n now of
      Inl e \<Rightarrow> n = 0 \<or> max (nextStartTimeRef st) now < 0
    | Inr st' \<Rightarrow>
        interval_of fl (last (sourcesRef st'))
          = (max (nextStartTimeRef st) now,
             fl (max (nextStartTimeRef st) now + fl (real n / 24000))) \<and>
        sourcesRef st' = sourcesRef st @ [last (sourcesRef st')] \<and>
        effects st' = effects st @ [SourceStart (created st) (max (nextStartTimeRef st) now)] \<and>
        nextStartTimeRef st' = fl (max (nextStartTimeRef st) now + fl (real n / 24000)) \<and>
        nextStartTimeRef st \<le> nextStartTimeRef st'"
  proof (cases "schedulePlayback fl st n now")
    case (Inl e)
    then show ?thesis using schedulePlayback_Inl [OF Inl] by simp
  next
    case (Inr s)
    show ?thesis
      using schedulePlayback_interval [OF Inr] schedulePlayback_Inr(2,3,4) [OF Inr]
        schedulePlayback_cursor(2) [OF mono zero idem cur clk Inr]
      by (simp add: Inr)
  qed
  have 5: "0 < n \<and> 0 \<le> now \<longrightarrow> (\<exists>st'. schedulePlayback fl st n now = Inr st')"
    using schedulePlayback_succeeds by blast
  have 6: "schedulePlayback fl st 0 now = Inl NotSupportedError"
    by (simp add: schedulePlayback_def)
  have 7: "enqueue_all fl st ((0, now) # reqs) = enqueue_all fl st reqs"
    by (simp add: 6)
  have 8: "audioData message = Some payload \<and> payload \<noteq> [] \<and> atob payload = Inr [] \<and>
    \<not> isMuted st \<and> audioContextRef st \<noteq> None \<longrightarrow>
      onmessage atob fl st now message = Inl NotSupportedError \<and>
      handle atob btoa fl st (Message now message) = st"
    by (simp add: onmessage_empty_chunk)
  show ?thesis using 1 2 3 4 5 6 7 8 by (simp only: e prod.case)
qed

text \<open>
  Four chunks: one second at clock 0, an empty chunk, 100 samples arriving early and one
  second arriving after a gap. The rounding here is to multiples of \<open>1/1024\<close>, downwards:
  it rounds the duration of the 100 samples, \<open>1/240\<close>, to \<open>1/256\<close>.
\<close>

theorem playback_schedule_witness:
  "fst (enqueue_all (\<lambda>x. real_of_int \<lfloor>x * 1024\<rfloor> / 1024) (initAudio initial False)
          [(24000, 0), (0, 5), (100, 1 / 2), (24000, 10)])
     = [(0, 1), (1, 257 / 256), (10, 11)] \<and>
   nextStartTimeRef (snd (enqueue_all (\<lambda>x. real_of_int \<lfloor>x * 1024\<rfloor> / 1024)
       (initAudio initial False) [(24000, 0), (0, 5), (100, 1 / 2), (24000, 10)])) = 11 \<and>
   (0::nat) < 100 \<and> (0::real) \<le> 1 / 2 \<and>
   (case schedulePlayback (\<lambda>x. real_of_int \<lfloor>x * 1024\<rfloor> / 1024)
           (initAudio initial False) 100 (1 / 2) of
      Inl e \<Rightarrow> False
    | Inr st' \<Rightarrow> interval_of (\<lambda>x. real_of_int \<lfloor>x * 1024\<rfloor> / 1024) (last (sourcesRef st'))
                   = (1 / 2, 129 / 256) \<and>
                 nextStartTimeRef st' = 129 / 256)"
proof -
  let ?fl = "\<lambda>x::real. real_of_int \<lfloor>x * 1024\<rfloor> / 1024"
  let ?reqs = "[(24000, 0), (0, 5), (100, 1 / 2), (24000, 10 :: real)] :: (nat \<times> real) list"
  have mono: "\<And>x y. x \<le> y \<Longrightarrow> ?fl x \<le> ?fl y"
    by (simp add: divide_right_mono floor_mono)
  have zero: "?fl 0 = 0" by simp
  have idem: "\<And>x. ?fl (?fl x) = ?fl x" by simp
  have cur: "?fl (nextStartTimeRef (initAudio initial False)) = nextStartTimeRef (initAudio initial False)"
    by (simp add: initAudio_def initAudio_resumed_def)
  have clks: "\<forall>(n, t) \<in> set ?reqs. ?fl t = t" by simp
  have clk: "?fl (1 / 2) = 1 / 2" by simp
  note t = playback_schedule [where fl = ?fl and st = "initAudio initial False" and n = 100
      and now = "1 / 2" and reqs = ?reqs, OF mono zero idem cur clks clk]
  have h: "(0::nat) < 100 \<and> (0::real) \<le> 1 / 2" by simp
  with t have "\<exists>st'. schedulePlayback ?fl (initAudio initial False) 100 (1 / 2) = Inr st'"
    by blast
  then obtain st' where o: "schedulePlayback ?fl (initAudio initial False) 100 (1 / 2) = Inr st'"
    by blast
  from t have "case schedulePlayback ?fl (initAudio initial False) 100 (1 / 2) of
      Inl e \<Rightarrow> 100 = (0::nat) \<or> max (nextStartTimeRef (initAudio initial False)) (1 / 2) < 0
    | Inr st' \<Rightarrow>
        interval_of ?fl (last (sourcesRef st'))
          = (max (nextStartTimeRef (initAudio initial False)) (1 / 2),
             ?fl (max (nextStartTimeRef (initAudio initial False)) (1 / 2) + ?fl (real 100 / 24000))) \<and>
        sourcesRef st' = sourcesRef (initAudio initial False) @ [last (sourcesRef st')] \<and>
        effects st' = effects (initAudio initial False) @
          [SourceStart (created (initAudio initial False))
             (max (nextStartTimeRef (initAudio initial False)) (1 / 2))] \<and>
        nextStartTimeRef st'
          = ?fl (max (nextStartTimeRef (initAudio initial False)) (1 / 2) + ?fl (real 100 / 24000)) \<and>
        nextStartTimeRef (initAudio initial False) \<le> nextStartTimeRef st'"
    by blast
  then have k: "interval_of ?fl (last (sourcesRef st')) = (1 / 2, 129 / 256) \<and>
                nextStartTimeRef st' = 129 / 256"
    by (simp only: o sum.case) (simp add: initAudio_def initAudio_resumed_def)
  have e: "fst (enqueue_all ?fl (initAudio initial False) ?reqs)
     = [(0, 1), (1, 257 / 256), (10, 11)]"
    by (simp add: schedulePlayback_def initAudio_def initAudio_resumed_def initial_def
        interval_of_def)
  have c: "nextStartTimeRef (snd (enqueue_all ?fl (initAudio initial False) ?reqs)) = 11"
    by (simp add: schedulePlayback_def initAudio_def initAudio_resumed_def initial_def
        interval_of_def)
  show ?thesis using e c k h by (simp only: o sum.case)
qed

text \<open>
  A message whose audio payload is one space, which \<open>atob\<close> decodes to the empty string,
  and which carries the input delta \<open>Hello\<close> and the turn-complete flag, arrives at a
  connected component. The handler throws and nothing is committed. The same message
  without the payload commits the user message \<open>Hello\<close>: the empty chunk was not a no-op.
\<close>

theorem empty_chunk_counterexample:
  "audioContextRef (connect initial False) = Some (AudioContext 24000) \<and>
   onmessage (\<lambda>payload. Inr []) id (connect initial False) 0
       \<lparr>audioData = Some (js '' ''), inputTranscription = Some (js ''Hello''),
        outputTranscription = None, turnComplete = True\<rparr>
     = Inl NotSupportedError \<and>
   messages (step (\<lambda>payload. Inr []) id id (connect initial False)
       (Message 0 \<lparr>audioData = Some (js '' ''), inputTranscription = Some (js ''Hello''),
                   outputTranscription = None, turnComplete = True\<rparr>)) = [] \<and>
   messages (step (\<lambda>payload. Inr []) id id (connect initial False)
       (Message 0 \<lparr>audioData = None, inputTranscription = Some (js ''Hello''),
                   outputTranscription = None, turnComplete = True\<rparr>))
     = [\<lparr>role = User, msg_text = js ''Hello''\<rparr>]"
proof -
  have c: "audioContextRef (connect initial False) = Some (AudioContext 24000)"
    "\<not> isMuted (connect initial False)" "messages (connect initial False) = []"
    "currentInputTransRef (connect initial False) = []"
    "currentOutputTransRef (connect initial False) = []"
    by (simp_all add: connect_def initAudio_def initAudio_resumed_def initial_def)
  have t: "onmessage (\<lambda>payload. Inr []) id (connect initial False) 0
       \<lparr>audioData = Some (js '' ''), inputTranscription = Some (js ''Hello''),
        outputTranscription = None, turnComplete = True\<rparr>
     = Inl NotSupportedError"
    by (rule onmessage_empty_chunk [where payload = "js '' ''"]) (simp_all add: c js_nonempty)
  have w: "messages (step (\<lambda>payload. Inr []) id id (connect initial False)
       (Message 0 \<lparr>audioData = None, inputTranscription = Some (js ''Hello''),
                   outputTranscription = None, turnComplete = True\<rparr>))
     = [\<lparr>role = User, msg_text = js ''Hello''\<rparr>]"
    by (simp add: step_def run_microtasks_def onmessage_def handleAudio_def and_then_def
        handleTranscripts_messages appendDeltas_fields c trim_Hello trim_Nil js_nonempty)
  show ?thesis using t w by (simp add: step_def run_microtasks_def c)
qed

end
